theory Spec2Isabelle
  imports Main "HOL-Library.Word"
begin

section \<open>Framework values and diagnostics\<close>

text \<open>
  The provider is written against the plugin framework's attribute values
  \<^verbatim>\<open>types.String\<close> and \<^verbatim>\<open>types.Bool\<close>: structs with the fields
  \<^verbatim>\<open>Unknown\<close>, \<^verbatim>\<open>Null\<close> and \<^verbatim>\<open>Value\<close>. The literal
  \<^verbatim>\<open>types.String{Value: v}\<close> leaves the two flags at their zero value.
\<close>

record 'a tfValue =
  Unknown :: bool
  Null :: bool
  Value :: 'a

type_synonym tfString = "string tfValue"
type_synonym tfBool = "bool tfValue"

definition Known :: "'a \<Rightarrow> 'a tfValue" where
  "Known v = \<lparr>Unknown = False, Null = False, Value = v\<rparr>"

datatype severity = SeverityError | SeverityWarning

record diagnostic =
  Severity :: severity
  Summary :: string
  Detail :: string

type_synonym Diagnostics = "diagnostic list"

text \<open>
  \<^verbatim>\<open>Diagnostics.Append\<close> of the framework skips a diagnostic the collection already
  contains; \<^verbatim>\<open>AddError\<close> and \<^verbatim>\<open>AddWarning\<close> append one new diagnostic through it.
\<close>

fun Append :: "Diagnostics \<Rightarrow> Diagnostics \<Rightarrow> Diagnostics" where
  "Append diags [] = diags"
| "Append diags (d # ds) = Append (if d \<in> set diags then diags else diags @ [d]) ds"

definition AddError :: "string \<Rightarrow> string \<Rightarrow> Diagnostics \<Rightarrow> Diagnostics" where
  "AddError summary detail diags =
     Append diags [\<lparr>Severity = SeverityError, Summary = summary, Detail = detail\<rparr>]"

definition AddWarning :: "string \<Rightarrow> string \<Rightarrow> Diagnostics \<Rightarrow> Diagnostics" where
  "AddWarning summary detail diags =
     Append diags [\<lparr>Severity = SeverityWarning, Summary = summary, Detail = detail\<rparr>]"

definition HasError :: "Diagnostics \<Rightarrow> bool" where
  "HasError diags = list_ex (\<lambda>d. Severity d = SeverityError) diags"

text \<open>
  \<^verbatim>\<open>req.Config.Get\<close>, \<^verbatim>\<open>req.Plan.Get\<close> and \<^verbatim>\<open>req.State.Get\<close> decode the
  host's value into the model struct and return the diagnostics of the decoding. A
  request is modelled by that pair.
\<close>

type_synonym 'm Get = "Diagnostics \<times> 'm"

section \<open>Provider Core\<close>

record SanityProviderModel =
  Token :: tfString

text \<open>The process environment; \<^verbatim>\<open>os.Getenv\<close> yields the empty string for an unset variable.\<close>

type_synonym environ = "string \<rightharpoonup> string"

definition Getenv :: "environ \<Rightarrow> string \<Rightarrow> string" where
  "Getenv env k = (case env k of None \<Rightarrow> [] | Some v \<Rightarrow> v)"

text \<open>
  The backend client handle built by
  \<^verbatim>\<open>sanity.NewClient(oauth2.NewClient(ctx, oauth2.StaticTokenSource(&oauth2.Token{AccessToken: token})))\<close>:
  all that distinguishes two handles is the access token they carry.
\<close>

datatype ClientHandle = NewClient (AccessToken: string)

record ConfigureResponse =
  ConfigureDiagnostics :: Diagnostics
  DataSourceData :: "ClientHandle option"
  ResourceData :: "ClientHandle option"

definition SanityProvider_Configure ::
    "environ \<Rightarrow> SanityProviderModel Get \<Rightarrow> ConfigureResponse" where
  "SanityProvider_Configure env req =
     (let config = snd req;
          diags = Append [] (fst req)
      in if HasError diags then
           \<lparr>ConfigureDiagnostics = diags, DataSourceData = None, ResourceData = None\<rparr>
         else if Unknown (Token config) then
           \<lparr>ConfigureDiagnostics = AddWarning ''Unable to create client''
                            ''Cannot use unknown value as token'' diags,
            DataSourceData = None, ResourceData = None\<rparr>
         else
           let token = (if Null (Token config) then Getenv env ''SANITY_TOKEN''
                        else Value (Token config))
           in if token = [] then
                \<lparr>ConfigureDiagnostics = AddError ''Unable to find token''
                                 ''Token cannot be an empty string'' diags,
                 DataSourceData = None, ResourceData = None\<rparr>
              else
                let client = NewClient token
                in \<lparr>ConfigureDiagnostics = diags, DataSourceData = Some client,
                    ResourceData = Some client\<rparr>)"

section \<open>The backend client\<close>

text \<open>
  The types of the vendored client package \<^verbatim>\<open>sanity\<close>, with the fields the provider
  reads or writes. A Go \<^verbatim>\<open>error\<close> is nil or carries the text of \<^verbatim>\<open>err.Error()\<close>;
  a \<^verbatim>\<open>*bool\<close> made by \<^verbatim>\<open>sanity.NewBool\<close> is nil or points to a value; reading a
  missing key of a Go map yields the zero value.
\<close>

type_synonym error = "string option"
type_synonym int64 = "64 word"

definition MapIndex :: "(string \<rightharpoonup> string) \<Rightarrow> string \<Rightarrow> string" where
  "MapIndex m k = (case m k of None \<Rightarrow> [] | Some v \<Rightarrow> v)"

record Project =
  Id :: string
  DisplayName :: string
  OrganizationId :: string
  StudioHost :: string
  Metadata :: "string \<rightharpoonup> string"
  IsDisabledByUser :: bool
  ActivityFeedEnabled :: bool

record CreateProjectRequest =
  DisplayName :: string
  OrganizationId :: string

record UpdateProjectRequest =
  DisplayName :: string
  StudioHost :: string
  ExternalStudioHost :: string
  Color :: string
  IsDisabledByUser :: "bool option"
  ActivityFeedEnabled :: "bool option"

record CORSEntry =
  Id :: int64
  Origin :: string
  AllowCredentials :: bool

record CreateCORSEntryRequest =
  Origin :: string
  AllowCredentials :: "bool option"

record Dataset =
  Name :: string
  AclMode :: string

record CreateDatasetRequest =
  Name :: string
  AclMode :: string

text \<open>
  The methods of \<^verbatim>\<open>client.Projects\<close> the provider calls. The package is not part of
  the repository, so the methods are parameters: each maps its arguments and the
  backend's state to its results and the backend's next state. A method whose result
  the provider dereferences (\<^verbatim>\<open>project.Id\<close>, \<^verbatim>\<open>entry.Id\<close>) returns a pointer. The
  client hands back an object also when the call fails, a zero object next to the
  error; nil stays a value of the pointer type (None), and its dereference is a branch
  of the operations below. List methods return slices of values (the provider copies
  their elements into \<^verbatim>\<open>var entry sanity.CORSEntry\<close>). The first result of the delete methods is
  discarded by every caller and is left out; \<^verbatim>\<open>CreateDataset\<close> keeps its first
  result, the created dataset, which its one caller discards as well.
\<close>

record 's Client =
  Projects_Create :: "CreateProjectRequest \<Rightarrow> 's \<Rightarrow> (Project option \<times> error) \<times> 's"
  Projects_Update :: "string \<Rightarrow> UpdateProjectRequest \<Rightarrow> 's \<Rightarrow> (Project option \<times> error) \<times> 's"
  Projects_Get :: "string \<Rightarrow> 's \<Rightarrow> (Project option \<times> error) \<times> 's"
  Projects_Delete :: "string \<Rightarrow> 's \<Rightarrow> error \<times> 's"
  Projects_ListCORSEntries :: "string \<Rightarrow> 's \<Rightarrow> (CORSEntry list \<times> error) \<times> 's"
  Projects_CreateCORSEntry ::
    "string \<Rightarrow> CreateCORSEntryRequest \<Rightarrow> 's \<Rightarrow> (CORSEntry option \<times> error) \<times> 's"
  Projects_DeleteCORSEntry :: "string \<Rightarrow> int64 \<Rightarrow> 's \<Rightarrow> error \<times> 's"
  Projects_ListDatasets :: "string \<Rightarrow> 's \<Rightarrow> (Dataset list \<times> error) \<times> 's"
  Projects_CreateDataset ::
    "string \<Rightarrow> CreateDatasetRequest \<Rightarrow> 's \<Rightarrow> (Dataset option \<times> error) \<times> 's"
  Projects_DeleteDataset :: "string \<Rightarrow> string \<Rightarrow> 's \<Rightarrow> error \<times> 's"

text \<open>Every call that reaches the backend is recorded, in order, with its arguments.\<close>

datatype call =
    CallCreate CreateProjectRequest
  | CallUpdate string UpdateProjectRequest
  | CallGet string
  | CallDelete string
  | CallListCORSEntries string
  | CallCreateCORSEntry string CreateCORSEntryRequest
  | CallDeleteCORSEntry string int64
  | CallListDatasets string
  | CallCreateDataset string CreateDatasetRequest
  | CallDeleteDataset string string

record 's world =
  Backend :: 's
  Calls :: "call list"

definition invoke :: "call \<Rightarrow> ('s \<Rightarrow> 'r \<times> 's) \<Rightarrow> 's world \<Rightarrow> 'r \<times> 's world" where
  "invoke k f w =
     (case f (Backend w) of (r, s') \<Rightarrow> (r, \<lparr>Backend = s', Calls = Calls w @ [k]\<rparr>))"

definition start :: "'s \<Rightarrow> 's world" where
  "start s = \<lparr>Backend = s, Calls = []\<rparr>"

text \<open>
  What one operation of a resource leaves behind: the diagnostics of its response, the
  model it wrote with \<^verbatim>\<open>resp.State.Set\<close> (None when it returned before), whether it
  ended in a nil-pointer panic instead of returning, and the backend with the calls
  made. The host hands every operation a response without diagnostics.
  \<^verbatim>\<open>resp.State.Set\<close> of a model of the resource's own type adds no diagnostic.
\<close>

record ('m, 's) run =
  Diagnostics :: Diagnostics
  State :: "'m option"
  Panicked :: bool
  World :: "'s world"

definition Return :: "Diagnostics \<Rightarrow> 'm option \<Rightarrow> 's world \<Rightarrow> ('m, 's) run" where
  "Return diags st w = \<lparr>Diagnostics = diags, State = st, Panicked = False, World = w\<rparr>"

definition NilDereference :: "Diagnostics \<Rightarrow> 's world \<Rightarrow> ('m, 's) run" where
  "NilDereference diags w = \<lparr>Diagnostics = diags, State = None, Panicked = True, World = w\<rparr>"

section \<open>Dataset Resource\<close>

record DatasetResourceModel =
  Project :: tfString
  Name :: tfString
  AclMode :: tfString

definition DatasetResource_Create ::
    "'s Client \<Rightarrow> DatasetResourceModel Get \<Rightarrow> 's \<Rightarrow> (DatasetResourceModel, 's) run" where
  "DatasetResource_Create c req s =
     (let data = snd req;
          diags = Append [] (fst req)
      in if HasError diags then Return diags None (start s)
         else
          let project = Value (DatasetResourceModel.Project data);
              rq = \<lparr>CreateDatasetRequest.Name = Value (DatasetResourceModel.Name data),
                    CreateDatasetRequest.AclMode = Value (DatasetResourceModel.AclMode data)\<rparr>
          in case invoke (CallCreateDataset project rq) (Projects_CreateDataset c project rq)
                    (start s) of
               ((_, Some e), w) \<Rightarrow> Return (AddError ''Client Error'' e diags) None w
             | ((_, None), w) \<Rightarrow> Return diags (Some data) w)"

definition DatasetResource_Read ::
    "'s Client \<Rightarrow> DatasetResourceModel Get \<Rightarrow> 's \<Rightarrow> (DatasetResourceModel, 's) run" where
  "DatasetResource_Read c req s =
     (let data = snd req;
          diags = Append [] (fst req)
      in if HasError diags then Return diags None (start s)
         else
          let projectId = Value (DatasetResourceModel.Project data)
          in case invoke (CallListDatasets projectId) (Projects_ListDatasets c projectId)
                    (start s) of
               ((datasets, Some e), w) \<Rightarrow> Return (AddError ''Client Error'' e diags) None w
             | ((datasets, None), w) \<Rightarrow>
                 (case find (\<lambda>d. Dataset.Name d = Value (DatasetResourceModel.Name data))
                         datasets of
                    None \<Rightarrow>
                      Return (AddError ''dataset not found'' ''dataset not found'' diags) None w
                  | Some dataset \<Rightarrow>
                      Return diags
                        (Some (data\<lparr>DatasetResourceModel.AclMode :=
                                      Known (Dataset.AclMode dataset)\<rparr>)) w))"

definition DatasetResource_Update ::
    "'s Client \<Rightarrow> DatasetResourceModel Get \<Rightarrow> 's \<Rightarrow> (DatasetResourceModel, 's) run" where
  "DatasetResource_Update c req s =
     Return (AddError ''Provider Error'' ''Update is not supported on dataset'' []) None
       (start s)"

definition DatasetResource_Delete ::
    "'s Client \<Rightarrow> DatasetResourceModel Get \<Rightarrow> 's \<Rightarrow> (DatasetResourceModel, 's) run" where
  "DatasetResource_Delete c req s =
     (let data = snd req;
          diags = Append [] (fst req)
      in if HasError diags then Return diags None (start s)
         else if Null (DatasetResourceModel.Name data) then
           Return (AddError ''Name is null'' ''Name is null'' diags) None (start s)
         else if Null (DatasetResourceModel.Project data) then
           Return (AddError ''Project is null'' ''Project is null'' diags) None (start s)
         else
          let project = Value (DatasetResourceModel.Project data);
              name = Value (DatasetResourceModel.Name data)
          in case invoke (CallDeleteDataset project name)
                    (Projects_DeleteDataset c project name) (start s) of
               (Some e, w) \<Rightarrow>
                 Return (AddError ''Client Error''
                           (''dataset '' @ name @ '' could not be deleted, got error: '' @ e)
                           diags) None w
             | (None, w) \<Rightarrow> Return diags None w)"

text \<open>
  \<^verbatim>\<open>strings.Split(s, "/")\<close>: cut at every separator, as the library's loop does (find
  the next separator, keep what precedes it, go on with what follows); the rest of the
  string is the last part, so the empty string splits into one empty part.
\<close>

function Split :: "string \<Rightarrow> char \<Rightarrow> string list" where
  "Split s sep =
     (case dropWhile (\<lambda>c. c \<noteq> sep) s of
        [] \<Rightarrow> [s]
      | _ # rest \<Rightarrow> takeWhile (\<lambda>c. c \<noteq> sep) s # Split rest sep)"
  by pat_completeness auto
termination
proof (relation "measure (\<lambda>(s, sep). length s)")
  show "wf (measure (\<lambda>(s, sep). length s))" by simp
next
  fix s :: string and sep x rest
  assume "dropWhile (\<lambda>c. c \<noteq> sep) s = x # rest"
  then have "length (x # rest) \<le> length s"
    by (metis length_dropWhile_le)
  then show "((rest, sep), (s, sep)) \<in> measure (\<lambda>(s, sep). length s)" by simp
qed

declare Split.simps [simp del]

text \<open>
  The state an import leaves behind is the set of attributes written by
  \<^verbatim>\<open>resource.ImportStatePassthroughID\<close>, which stores the identifier it is given at
  the attribute path it is given.
\<close>

type_synonym ImportedState = "string \<rightharpoonup> string"

record ImportStateResponse =
  ImportDiagnostics :: Diagnostics
  ImportedState :: ImportedState

definition ImportStatePassthroughID ::
    "string \<Rightarrow> string \<Rightarrow> ImportStateResponse \<Rightarrow> ImportStateResponse" where
  "ImportStatePassthroughID attr ident resp =
     resp\<lparr>ImportedState := (ImportedState resp)(attr \<mapsto> ident)\<rparr>"

definition DatasetResource_ImportState :: "string \<Rightarrow> ImportStateResponse" where
  "DatasetResource_ImportState ident =
     (let resp = \<lparr>ImportDiagnostics = [], ImportedState = Map.empty\<rparr>;
          parts = Split ident CHR ''/''
      in if length parts \<noteq> 2 then
           resp\<lparr>ImportDiagnostics :=
                  AddError ''Input Error''
                    ''The import identifier for a dataset should be in the form project-id/dataset-name''
                    (ImportDiagnostics resp)\<rparr>
         else
           ImportStatePassthroughID ''name'' (parts ! 1)
             (ImportStatePassthroughID ''project'' (parts ! 0) resp))"

section \<open>Decimal rendering and scanning of entry ids\<close>

text \<open>
  \<^verbatim>\<open>fmt.Sprintf("%d", id)\<close> for an \<^verbatim>\<open>int64\<close>: the decimal digits of the magnitude,
  most significant first, each read from the digit table, after a minus sign when the
  value is negative.
\<close>

definition digits :: string where
  "digits = ''0123456789''"

fun decimal :: "nat \<Rightarrow> string" where
  "decimal n =
     (if n < 10 then [digits ! n]
      else decimal (n div 10) @ [digits ! (n mod 10)])"

declare decimal.simps [simp del]

definition Sprintf_d :: "int64 \<Rightarrow> string" where
  "Sprintf_d i =
     (if sint i < 0 then CHR ''-'' # decimal (nat (- sint i)) else decimal (nat (sint i)))"

text \<open>
  \<^verbatim>\<open>strconv.ParseUint(s, 10, 64)\<close>: the digit loop with the library's two overflow
  checks (\<^verbatim>\<open>n >= cutoff\<close> before the multiplication, \<^verbatim>\<open>n1 > maxVal\<close> after the
  addition; the accumulator is a natural number here, so the wrap-around test
  \<^verbatim>\<open>n1 < n\<close> of the library is the second check). A range error carries the value
  the library returns with it, the maximum.
\<close>

datatype NumError = ErrSyntax | ErrRange

definition isDigit :: "char \<Rightarrow> bool" where
  "isDigit c \<longleftrightarrow> 48 \<le> (of_char c :: nat) \<and> (of_char c :: nat) \<le> 57"

definition maxUint64 :: nat where
  "maxUint64 = 18446744073709551615"

fun ParseUint_loop :: "nat \<Rightarrow> string \<Rightarrow> nat \<times> NumError option" where
  "ParseUint_loop n [] = (n, None)"
| "ParseUint_loop n (c # cs) =
     (if \<not> isDigit c then (0, Some ErrSyntax)
      else if n \<ge> maxUint64 div 10 + 1 then (maxUint64, Some ErrRange)
      else let n1 = n * 10 + (of_char c - 48)
           in if n1 > maxUint64 then (maxUint64, Some ErrRange)
              else ParseUint_loop n1 cs)"

definition ParseUint :: "string \<Rightarrow> nat \<times> NumError option" where
  "ParseUint s = (if s = [] then (0, Some ErrSyntax) else ParseUint_loop 0 s)"

text \<open>
  The number the digit loop reaches from the accumulator \<open>n\<close> over the string \<open>cs\<close>
  when no check stops it; it serves the proofs only.
\<close>

definition accumulate :: "nat \<Rightarrow> string \<Rightarrow> nat" where
  "accumulate n cs = foldl (\<lambda>a c. a * 10 + (of_char c - 48)) n cs"

definition NumError_text :: "string \<Rightarrow> NumError \<Rightarrow> string" where
  "NumError_text s e =
     ''strconv.ParseInt: parsing '' @ [CHR 0x22] @ s @ [CHR 0x22] @
     (case e of ErrSyntax \<Rightarrow> '': invalid syntax'' | ErrRange \<Rightarrow> '': value out of range'')"

text \<open>
  \<^verbatim>\<open>strconv.ParseInt(s, 10, 64)\<close>: an optional sign, the unsigned value, the range
  check against \<^verbatim>\<open>1 << 63\<close>, and the conversion \<^verbatim>\<open>int64(un)\<close>, negated under a
  minus sign.
\<close>

definition ParseInt :: "string \<Rightarrow> string + int64" where
  "ParseInt s0 =
     (if s0 = [] then Inl (NumError_text s0 ErrSyntax)
      else
        let neg = (hd s0 = CHR ''-'');
            s = (if hd s0 = CHR ''+'' \<or> hd s0 = CHR ''-'' then tl s0 else s0);
            cutoff = (2 :: nat) ^ 63
        in case ParseUint s of
             (un, Some ErrSyntax) \<Rightarrow> Inl (NumError_text s0 ErrSyntax)
           | (un, err) \<Rightarrow>
               if \<not> neg \<and> un \<ge> cutoff then Inl (NumError_text s0 ErrRange)
               else if neg \<and> un > cutoff then Inl (NumError_text s0 ErrRange)
               else Inr (if neg then - (word_of_nat un) else word_of_nat un))"

text \<open>
  \<^verbatim>\<open>fmt.Sscanf(str, "%d", &rawId)\<close> reads its input rune by rune. The scanner's
  reader decodes UTF-8: a byte below 0x80 is its own rune, a well-formed sequence of
  two or three bytes is the code point it encodes, and a byte that starts no
  well-formed sequence is the replacement character U+FFFD of width one. Code points
  beyond U+FFFF take four bytes; they are never white space, a sign or a digit, so
  the scan stops at their first byte as it does at a malformed one, and they are
  decoded as such here.
\<close>

definition DecodeRune :: "nat list \<Rightarrow> nat \<times> nat" where
  "DecodeRune b =
     (case b of
        [] \<Rightarrow> (0xFFFD, 1)
      | b0 # t \<Rightarrow>
          if b0 < 0x80 then (b0, 1)
          else if 0xC2 \<le> b0 \<and> b0 \<le> 0xDF then
            (case t of
               b1 # _ \<Rightarrow>
                 if 0x80 \<le> b1 \<and> b1 \<le> 0xBF then ((b0 - 0xC0) * 64 + (b1 - 0x80), 2)
                 else (0xFFFD, 1)
             | [] \<Rightarrow> (0xFFFD, 1))
          else if 0xE0 \<le> b0 \<and> b0 \<le> 0xEF then
            (case t of
               b1 # b2 # _ \<Rightarrow>
                 if (if b0 = 0xE0 then 0xA0 else 0x80) \<le> b1
                    \<and> b1 \<le> (if b0 = 0xED then 0x9F else 0xBF)
                    \<and> 0x80 \<le> b2 \<and> b2 \<le> 0xBF
                 then ((b0 - 0xE0) * 4096 + (b1 - 0x80) * 64 + (b2 - 0x80), 3)
                 else (0xFFFD, 1)
             | _ \<Rightarrow> (0xFFFD, 1))
          else (0xFFFD, 1))"

text \<open>
  The scanner's table of white space, by code point: U+0009 to U+000D, U+0020, U+0085,
  U+00A0, U+1680, U+2000 to U+200A, U+2028, U+2029, U+202F, U+205F and U+3000.
\<close>

definition isSpace :: "nat \<Rightarrow> bool" where
  "isSpace r \<longleftrightarrow>
     (0x0009 \<le> r \<and> r \<le> 0x000D) \<or> r = 0x0020 \<or> r = 0x0085 \<or> r = 0x00A0 \<or> r = 0x1680
     \<or> (0x2000 \<le> r \<and> r \<le> 0x200A) \<or> (0x2028 \<le> r \<and> r \<le> 0x2029) \<or> r = 0x202F
     \<or> r = 0x205F \<or> r = 0x3000"

text \<open>
  \<^verbatim>\<open>SkipSpace\<close> with the settings of \<^verbatim>\<open>Sscanf\<close>: a newline is an error, every
  other white-space rune is skipped (a carriage return, before a newline or not, is
  one), and the first rune that is no white space is left in the input.
\<close>

function SkipSpace :: "string \<Rightarrow> string + string" where
  "SkipSpace s =
     (if s = [] then Inr []
      else
        let r = fst (DecodeRune (map of_char s));
            w = snd (DecodeRune (map of_char s))
        in if r = 10 then Inl ''unexpected newline''
           else if isSpace r then SkipSpace (drop w s)
           else Inr s)"
  by pat_completeness auto
termination
proof (relation "measure length")
  show "wf (measure length)" by simp
next
  fix s :: string and r w :: nat
  assume "s \<noteq> []" and "w = snd (DecodeRune (map of_char s))"
  moreover have "0 < snd (DecodeRune b)" for b
    by (simp add: DecodeRune_def split: list.splits)
  ultimately have "0 < w" and "0 < length s" by simp_all
  then show "(drop w s, s) \<in> measure length" by simp
qed

declare SkipSpace.simps [simp del]

text \<open>
  After the white space the scanner needs input (at the end of the input the error
  is \<^verbatim>\<open>io.EOF\<close>, whose text is "EOF"), takes an optional sign, needs input again and
  there a decimal digit ("expected integer" otherwise), and takes the run of decimal
  digits that follows. For the verb \<^verbatim>\<open>%d\<close> the digits are \<^verbatim>\<open>0123456789\<close>. The token,
  sign and digits, goes to \<^verbatim>\<open>strconv.ParseInt\<close>, whose error is the scan's error;
  what follows the token in the input is not looked at. The result is the error text,
  or the integer stored in \<^verbatim>\<open>rawId\<close>.
\<close>

definition scanDigit :: "char \<Rightarrow> bool" where
  "scanDigit c \<longleftrightarrow> c \<in> set ''0123456789''"

definition Sscanf_d :: "string \<Rightarrow> string + int64" where
  "Sscanf_d str =
     (case SkipSpace str of
        Inl e \<Rightarrow> Inl e
      | Inr [] \<Rightarrow> Inl ''EOF''
      | Inr (c # cs) \<Rightarrow>
          let sign = (if c = CHR ''+'' \<or> c = CHR ''-'' then [c] else []);
              s = (if c = CHR ''+'' \<or> c = CHR ''-'' then cs else c # cs)
          in case s of
               [] \<Rightarrow> Inl ''EOF''
             | d # ds \<Rightarrow>
                 if \<not> scanDigit d then Inl ''expected integer''
                 else ParseInt (sign @ takeWhile scanDigit s))"

section \<open>CORS Origin Resource\<close>

record CORSOriginResourceModel =
  Id :: tfString
  Origin :: tfString
  AllowCredentials :: tfBool
  Project :: tfString

definition CORSOriginResource_Create ::
    "'s Client \<Rightarrow> CORSOriginResourceModel Get \<Rightarrow> 's \<Rightarrow> (CORSOriginResourceModel, 's) run" where
  "CORSOriginResource_Create c req s =
     (let data = snd req;
          diags = Append [] (fst req)
      in if HasError diags then Return diags None (start s)
         else
          let corsReq0 = \<lparr>CreateCORSEntryRequest.Origin =
                            Value (CORSOriginResourceModel.Origin data),
                          CreateCORSEntryRequest.AllowCredentials = Some True\<rparr>;
              corsReq =
                (if \<not> Null (CORSOriginResourceModel.AllowCredentials data) then
                   corsReq0\<lparr>CreateCORSEntryRequest.AllowCredentials :=
                              Some (Value (CORSOriginResourceModel.AllowCredentials data))\<rparr>
                 else corsReq0);
              project = Value (CORSOriginResourceModel.Project data)
          in case invoke (CallCreateCORSEntry project corsReq)
                    (Projects_CreateCORSEntry c project corsReq) (start s) of
               ((entry, Some e), w) \<Rightarrow> Return (AddError ''Client Error'' e diags) None w
             | ((None, None), w) \<Rightarrow> NilDereference diags w
             | ((Some entry, None), w) \<Rightarrow>
                 Return diags
                   (Some (data\<lparr>CORSOriginResourceModel.Id := Known (Sprintf_d (CORSEntry.Id entry)),
                               CORSOriginResourceModel.AllowCredentials :=
                                 Known (CORSEntry.AllowCredentials entry)\<rparr>)) w)"

definition CORSOriginResource_Read ::
    "'s Client \<Rightarrow> CORSOriginResourceModel Get \<Rightarrow> 's \<Rightarrow> (CORSOriginResourceModel, 's) run" where
  "CORSOriginResource_Read c req s =
     (let data = snd req;
          diags = Append [] (fst req)
      in if HasError diags then Return diags None (start s)
         else if Null (CORSOriginResourceModel.Id data) then
           Return (AddError ''Entry id is null'' ''Entry id is null'' diags) None (start s)
         else if Null (CORSOriginResourceModel.Project data) then
           Return (AddError ''Project is null'' ''Project is null'' diags) None (start s)
         else
          let project = Value (CORSOriginResourceModel.Project data)
          in case invoke (CallListCORSEntries project) (Projects_ListCORSEntries c project)
                    (start s) of
               ((entries, Some e), w) \<Rightarrow> Return (AddError ''Client Error'' e diags) None w
             | ((entries, None), w) \<Rightarrow>
                 (case Sscanf_d (Value (CORSOriginResourceModel.Id data)) of
                    Inl e \<Rightarrow> Return (AddError ''Client Error'' e diags) None w
                  | Inr rawId \<Rightarrow>
                      (case find (\<lambda>e. CORSEntry.Id e = rawId) entries of
                         None \<Rightarrow>
                           Return (AddError ''cors entry not found'' ''cors entry not found''
                                     diags) None w
                       | Some entry \<Rightarrow>
                           Return diags
                             (Some (data\<lparr>CORSOriginResourceModel.AllowCredentials :=
                                           Known (CORSEntry.AllowCredentials entry),
                                         CORSOriginResourceModel.Origin :=
                                           Known (CORSEntry.Origin entry)\<rparr>)) w)))"

definition CORSOriginResource_Update ::
    "'s Client \<Rightarrow> CORSOriginResourceModel Get \<Rightarrow> 's \<Rightarrow> (CORSOriginResourceModel, 's) run" where
  "CORSOriginResource_Update c req s =
     Return (AddError ''Provider Error'' ''Update is not supported on CORS entry'' []) None
       (start s)"

definition CORSOriginResource_Delete ::
    "'s Client \<Rightarrow> CORSOriginResourceModel Get \<Rightarrow> 's \<Rightarrow> (CORSOriginResourceModel, 's) run" where
  "CORSOriginResource_Delete c req s =
     (let data = snd req;
          diags = Append [] (fst req)
      in if HasError diags then Return diags None (start s)
         else if Null (CORSOriginResourceModel.Id data) then
           Return (AddError ''Entry id is null'' ''Entry id is null'' diags) None (start s)
         else if Null (CORSOriginResourceModel.Project data) then
           Return (AddError ''Project is null'' ''Project is null'' diags) None (start s)
         else
           case Sscanf_d (Value (CORSOriginResourceModel.Id data)) of
             Inl e \<Rightarrow> Return (AddError ''Client Error'' e diags) None (start s)
           | Inr rawId \<Rightarrow>
               let project = Value (CORSOriginResourceModel.Project data)
               in case invoke (CallDeleteCORSEntry project rawId)
                         (Projects_DeleteCORSEntry c project rawId) (start s) of
                    (Some e, w) \<Rightarrow>
                      Return (AddError ''Client Error''
                                (''entry '' @ Value (CORSOriginResourceModel.Id data) @
                                 '' could not be deleted, got error: '' @ e) diags) None w
                  | (None, w) \<Rightarrow> Return diags None w)"

section \<open>Project Resource\<close>

record ProjectResourceModel =
  Id :: tfString
  Name :: tfString
  Organization :: tfString
  StudioHost :: tfString
  ExternalStudioHost :: tfString
  Color :: tfString
  IsDisabledByUser :: tfBool
  ActivityFeedEnabled :: tfBool

text \<open>
  The eight assignments that end Create, Read and Update: every field of the model is
  overwritten from the project the backend returned.
\<close>

definition fromProject :: "ProjectResourceModel \<Rightarrow> Project \<Rightarrow> ProjectResourceModel" where
  "fromProject data project =
     data\<lparr>ProjectResourceModel.Id := Known (Project.Id project),
          ProjectResourceModel.Name := Known (Project.DisplayName project),
          ProjectResourceModel.Organization := Known (Project.OrganizationId project),
          ProjectResourceModel.StudioHost := Known (Project.StudioHost project),
          ProjectResourceModel.ExternalStudioHost :=
            Known (MapIndex (Metadata project) ''externalStudioHost''),
          ProjectResourceModel.Color := Known (MapIndex (Metadata project) ''color''),
          ProjectResourceModel.IsDisabledByUser := Known (Project.IsDisabledByUser project),
          ProjectResourceModel.ActivityFeedEnabled :=
            Known (Project.ActivityFeedEnabled project)\<rparr>"

text \<open>\<^verbatim>\<open>&sanity.UpdateProjectRequest{}\<close>: every field at its zero value.\<close>

definition emptyUpdateProjectRequest :: UpdateProjectRequest where
  "emptyUpdateProjectRequest =
     \<lparr>UpdateProjectRequest.DisplayName = [], UpdateProjectRequest.StudioHost = [],
      UpdateProjectRequest.ExternalStudioHost = [], UpdateProjectRequest.Color = [],
      UpdateProjectRequest.IsDisabledByUser = None,
      UpdateProjectRequest.ActivityFeedEnabled = None\<rparr>"

text \<open>The optional fields shared by the update requests of Create and Update.\<close>

definition setOptionalFields ::
    "ProjectResourceModel \<Rightarrow> UpdateProjectRequest \<Rightarrow> UpdateProjectRequest" where
  "setOptionalFields data updateReq =
     (let r1 = (if \<not> Null (ProjectResourceModel.ExternalStudioHost data) then
                  updateReq\<lparr>UpdateProjectRequest.ExternalStudioHost :=
                              Value (ProjectResourceModel.ExternalStudioHost data)\<rparr>
                else updateReq);
          r2 = (if \<not> Null (ProjectResourceModel.Color data) then
                  r1\<lparr>UpdateProjectRequest.Color := Value (ProjectResourceModel.Color data)\<rparr>
                else r1);
          r3 = (if \<not> Null (ProjectResourceModel.IsDisabledByUser data) then
                  r2\<lparr>UpdateProjectRequest.IsDisabledByUser :=
                       Some (Value (ProjectResourceModel.IsDisabledByUser data))\<rparr>
                else r2);
          r4 = (if \<not> Null (ProjectResourceModel.ActivityFeedEnabled data) then
                  r3\<lparr>UpdateProjectRequest.ActivityFeedEnabled :=
                       Some (Value (ProjectResourceModel.ActivityFeedEnabled data))\<rparr>
                else r3)
      in r4)"

text \<open>
  The loop of Create over the listed CORS entries: one delete call per entry, in order,
  stopping at the first call that fails. It yields that call's error, or nil when every
  delete succeeded; what Create does on the error is in Create itself.
\<close>

fun deleteEntries ::
    "'s Client \<Rightarrow> string \<Rightarrow> CORSEntry list \<Rightarrow> 's world \<Rightarrow> error \<times> 's world" where
  "deleteEntries c projectId [] w = (None, w)"
| "deleteEntries c projectId (entry # entries) w =
     (case invoke (CallDeleteCORSEntry projectId (CORSEntry.Id entry))
             (Projects_DeleteCORSEntry c projectId (CORSEntry.Id entry)) w of
        (Some e, w1) \<Rightarrow> (Some e, w1)
      | (None, w1) \<Rightarrow> deleteEntries c projectId entries w1)"

definition ProjectResource_Create ::
    "'s Client \<Rightarrow> ProjectResourceModel Get \<Rightarrow> 's \<Rightarrow> (ProjectResourceModel, 's) run" where
  "ProjectResource_Create c req s =
     (let data = snd req;
          diags = Append [] (fst req)
      in if HasError diags then Return diags None (start s)
         else
          let createReq =
                \<lparr>CreateProjectRequest.DisplayName = Value (ProjectResourceModel.Name data),
                 CreateProjectRequest.OrganizationId =
                   Value (ProjectResourceModel.Organization data)\<rparr>
          in case invoke (CallCreate createReq) (Projects_Create c createReq) (start s) of
               ((project, Some e), w) \<Rightarrow> Return (AddError ''Client Error'' e diags) None w
             | ((None, None), w) \<Rightarrow> NilDereference diags w
             | ((Some project, None), w) \<Rightarrow>
                 (case invoke (CallListCORSEntries (Project.Id project))
                         (Projects_ListCORSEntries c (Project.Id project)) w of
                    ((entries, Some e), w1) \<Rightarrow>
                      Return (AddError ''Client Error'' e diags) None w1
                  | ((entries, None), w1) \<Rightarrow>
                      (case deleteEntries c (Project.Id project) entries w1 of
                         (Some e, w2) \<Rightarrow>
                           (case invoke (CallDelete (Project.Id project))
                                   (Projects_Delete c (Project.Id project)) w2 of
                              (_, w3) \<Rightarrow> Return (AddError ''Client Error'' e diags) None w3)
                       | (None, w2) \<Rightarrow>
                           let requiresUpdate =
                                 (\<not> Null (ProjectResourceModel.StudioHost data) \<or>
                                  \<not> Null (ProjectResourceModel.ExternalStudioHost data) \<or>
                                  \<not> Null (ProjectResourceModel.Color data) \<or>
                                  \<not> Null (ProjectResourceModel.IsDisabledByUser data) \<or>
                                  \<not> Null (ProjectResourceModel.ActivityFeedEnabled data))
                           in if requiresUpdate then
                                let r0 = emptyUpdateProjectRequest;
                                    r1 = (if \<not> Null (ProjectResourceModel.StudioHost data) then
                                            r0\<lparr>UpdateProjectRequest.StudioHost :=
                                                 Value (ProjectResourceModel.StudioHost data)\<rparr>
                                          else r0);
                                    updateReq = setOptionalFields data r1
                                in case invoke (CallUpdate (Project.Id project) updateReq)
                                          (Projects_Update c (Project.Id project) updateReq) w2 of
                                     ((None, Some e), w3) \<Rightarrow>
                                       NilDereference (AddError ''Client Error'' e diags) w3
                                   | ((Some project', Some e), w3) \<Rightarrow>
                                       (case invoke (CallDelete (Project.Id project'))
                                               (Projects_Delete c (Project.Id project')) w3 of
                                          (_, w4) \<Rightarrow>
                                            Return (AddError ''Client Error'' e diags) None w4)
                                   | ((None, None), w3) \<Rightarrow> NilDereference diags w3
                                   | ((Some project', None), w3) \<Rightarrow>
                                       Return diags (Some (fromProject data project')) w3
                              else Return diags (Some (fromProject data project)) w2)))"

text \<open>
  Update reads the prior state's studio host into a Go string with
  \<^verbatim>\<open>req.State.GetAttribute\<close>; the request carries that string next to the plan.
\<close>

record ProjectUpdateRequest =
  Plan :: "ProjectResourceModel Get"
  StateStudioHost :: string

definition ProjectResource_Update ::
    "'s Client \<Rightarrow> ProjectUpdateRequest \<Rightarrow> 's \<Rightarrow> (ProjectResourceModel, 's) run" where
  "ProjectResource_Update c req s =
     (let data = snd (Plan req);
          diags = Append [] (fst (Plan req))
      in if HasError diags then Return diags None (start s)
         else if Null (ProjectResourceModel.Id data) then
           Return (AddError ''Project id is null'' ''Project id is null'' diags) None (start s)
         else
          let studioHost = StateStudioHost req;
              requiresUpdate =
                (\<not> Null (ProjectResourceModel.Name data) \<or>
                 (\<not> Null (ProjectResourceModel.StudioHost data) \<and> studioHost = []) \<or>
                 \<not> Null (ProjectResourceModel.ExternalStudioHost data) \<or>
                 \<not> Null (ProjectResourceModel.Color data) \<or>
                 \<not> Null (ProjectResourceModel.IsDisabledByUser data) \<or>
                 \<not> Null (ProjectResourceModel.ActivityFeedEnabled data))
          in if \<not> requiresUpdate then Return diags None (start s)
             else
              let r0 = emptyUpdateProjectRequest;
                  r1 = (if \<not> Null (ProjectResourceModel.Name data) then
                          r0\<lparr>UpdateProjectRequest.DisplayName :=
                               Value (ProjectResourceModel.Name data)\<rparr>
                        else r0);
                  r2 = (if studioHost = [] \<and> \<not> Null (ProjectResourceModel.StudioHost data) then
                          r1\<lparr>UpdateProjectRequest.StudioHost :=
                               Value (ProjectResourceModel.StudioHost data)\<rparr>
                        else r1);
                  updateReq = setOptionalFields data r2;
                  projectId = Value (ProjectResourceModel.Id data)
              in case invoke (CallUpdate projectId updateReq)
                        (Projects_Update c projectId updateReq) (start s) of
                   ((None, Some e), w) \<Rightarrow>
                     NilDereference (AddError ''Client Error'' e diags) w
                 | ((Some project, Some e), w) \<Rightarrow>
                     (case invoke (CallDelete (Project.Id project))
                             (Projects_Delete c (Project.Id project)) w of
                        (_, w1) \<Rightarrow> Return (AddError ''Client Error'' e diags) None w1)
                 | ((None, None), w) \<Rightarrow> NilDereference diags w
                 | ((Some project, None), w) \<Rightarrow>
                     Return diags (Some (fromProject data project)) w)"

section \<open>Example backends\<close>

text \<open>
  Two backends without state for evaluating the operations on concrete inputs. The
  first refuses every call with the error "boom"; a refused call returns its error
  next to a zero object, or an empty list. The second accepts every call. Its project
  has the id "p1", it lists two CORS entries and one dataset, and it reports every
  created dataset as private.
\<close>

definition NullString :: tfString where
  "NullString = \<lparr>Unknown = False, Null = True, Value = []\<rparr>"

definition NullBool :: tfBool where
  "NullBool = \<lparr>Unknown = False, Null = True, Value = False\<rparr>"

definition zeroProject :: Project where
  "zeroProject =
     \<lparr>Project.Id = [], Project.DisplayName = [], Project.OrganizationId = [],
      Project.StudioHost = [], Metadata = Map.empty,
      Project.IsDisabledByUser = False, Project.ActivityFeedEnabled = False\<rparr>"

definition zeroCORSEntry :: CORSEntry where
  "zeroCORSEntry =
     \<lparr>CORSEntry.Id = 0, CORSEntry.Origin = [], CORSEntry.AllowCredentials = False\<rparr>"

definition zeroDataset :: Dataset where
  "zeroDataset = \<lparr>Dataset.Name = [], Dataset.AclMode = []\<rparr>"

definition refusing :: "unit Client" where
  "refusing =
     \<lparr>Projects_Create = (\<lambda>rq s. ((Some zeroProject, Some ''boom''), s)),
      Projects_Update = (\<lambda>i rq s. ((Some zeroProject, Some ''boom''), s)),
      Projects_Get = (\<lambda>i s. ((Some zeroProject, Some ''boom''), s)),
      Projects_Delete = (\<lambda>i s. (Some ''boom'', s)),
      Projects_ListCORSEntries = (\<lambda>i s. (([], Some ''boom''), s)),
      Projects_CreateCORSEntry = (\<lambda>i rq s. ((Some zeroCORSEntry, Some ''boom''), s)),
      Projects_DeleteCORSEntry = (\<lambda>i n s. (Some ''boom'', s)),
      Projects_ListDatasets = (\<lambda>i s. (([], Some ''boom''), s)),
      Projects_CreateDataset = (\<lambda>i rq s. ((Some zeroDataset, Some ''boom''), s)),
      Projects_DeleteDataset = (\<lambda>i n s. (Some ''boom'', s))\<rparr>"

definition exampleProject :: "string \<Rightarrow> string \<Rightarrow> string \<Rightarrow> Project" where
  "exampleProject name org host =
     \<lparr>Project.Id = ''p1'', Project.DisplayName = name, Project.OrganizationId = org,
      Project.StudioHost = host, Metadata = Map.empty,
      Project.IsDisabledByUser = False, Project.ActivityFeedEnabled = True\<rparr>"

definition exampleEntries :: "CORSEntry list" where
  "exampleEntries =
     [\<lparr>CORSEntry.Id = 1, CORSEntry.Origin = ''https://a'', CORSEntry.AllowCredentials = True\<rparr>,
      \<lparr>CORSEntry.Id = 2, CORSEntry.Origin = ''https://b'', CORSEntry.AllowCredentials = False\<rparr>]"

definition accepting :: "unit Client" where
  "accepting =
     \<lparr>Projects_Create =
        (\<lambda>rq s. ((Some (exampleProject (CreateProjectRequest.DisplayName rq)
                            (CreateProjectRequest.OrganizationId rq) []), None), s)),
      Projects_Update =
        (\<lambda>i rq s. ((Some (exampleProject (UpdateProjectRequest.DisplayName rq) ''org''
                              (UpdateProjectRequest.StudioHost rq)), None), s)),
      Projects_Get = (\<lambda>i s. ((Some (exampleProject ''blog'' ''org'' []), None), s)),
      Projects_Delete = (\<lambda>i s. (None, s)),
      Projects_ListCORSEntries = (\<lambda>i s. ((exampleEntries, None), s)),
      Projects_CreateCORSEntry =
        (\<lambda>i rq s. ((Some \<lparr>CORSEntry.Id = - 42,
                            CORSEntry.Origin = CreateCORSEntryRequest.Origin rq,
                            CORSEntry.AllowCredentials = True\<rparr>, None), s)),
      Projects_DeleteCORSEntry = (\<lambda>i n s. (None, s)),
      Projects_ListDatasets =
        (\<lambda>i s. (([\<lparr>Dataset.Name = ''production'', Dataset.AclMode = ''public''\<rparr>], None), s)),
      Projects_CreateDataset =
        (\<lambda>i rq s. ((Some \<lparr>Dataset.Name = CreateDatasetRequest.Name rq,
                            Dataset.AclMode = ''private''\<rparr>, None), s)),
      Projects_DeleteDataset = (\<lambda>i n s. (None, s))\<rparr>"

section \<open>Diagnostics: basic facts\<close>

lemma HasError_Nil [simp]: "\<not> HasError []"
  by (simp add: HasError_def)

lemma HasError_append [simp]: "HasError (xs @ ys) \<longleftrightarrow> HasError xs \<or> HasError ys"
  by (simp add: HasError_def list_ex_iff) blast

lemma set_Append [simp]: "set (Append xs ys) = set xs \<union> set ys"
  by (induction ys arbitrary: xs) auto

lemma HasError_Append [simp]: "HasError (Append xs ys) \<longleftrightarrow> HasError xs \<or> HasError ys"
  by (simp add: HasError_def list_ex_iff) blast

lemma Append_empty_one [simp]: "Append [] [d] = [d]"
  by simp

lemma invoke_eq:
  "invoke k f w = (fst (f (Backend w)), \<lparr>Backend = snd (f (Backend w)), Calls = Calls w @ [k]\<rparr>)"
  by (simp add: invoke_def split: prod.splits)

section \<open>Provider Core: token resolution\<close>

text \<open>
  C3. Provider Configure, once the configuration decodes without an error: an unknown
  token attribute gives one warning and no client; otherwise the token is the
  environment variable SANITY_TOKEN when the attribute is null and the configured value
  when it is not; an empty resolved token gives the error "Token cannot be an empty
  string" and no client; any other token gives the client built from it, published both
  as data-source data and as resource data, with no diagnostic added.
\<close>

theorem Configure_token_resolution:
  fixes env :: environ and req :: "SanityProviderModel Get"
  defines "tok \<equiv> Token (snd req)"
    and "resp \<equiv> SanityProvider_Configure env req"
    and "diags \<equiv> Append [] (fst req)"
  defines "token \<equiv> (if Null tok then Getenv env ''SANITY_TOKEN'' else Value tok)"
  assumes "\<not> HasError (fst req)"
  shows "(Unknown tok \<longrightarrow>
            ConfigureDiagnostics resp =
              AddWarning ''Unable to create client'' ''Cannot use unknown value as token'' diags
            \<and> DataSourceData resp = None \<and> ResourceData resp = None)
     \<and> (\<not> Unknown tok \<and> token = [] \<longrightarrow>
            ConfigureDiagnostics resp =
              AddError ''Unable to find token'' ''Token cannot be an empty string'' diags
            \<and> DataSourceData resp = None \<and> ResourceData resp = None)
     \<and> (\<not> Unknown tok \<and> token \<noteq> [] \<longrightarrow>
            ConfigureDiagnostics resp = diags
            \<and> DataSourceData resp = Some (NewClient token)
            \<and> ResourceData resp = Some (NewClient token))"
  using assms(5)
  by (simp add: tok_def resp_def diags_def token_def SanityProvider_Configure_def Let_def)

theorem Configure_token_resolution_witness:
  "SanityProvider_Configure [''SANITY_TOKEN'' \<mapsto> ''abc123'']
       ([], \<lparr>Token = \<lparr>Unknown = False, Null = True, Value = []\<rparr>\<rparr>)
     = \<lparr>ConfigureDiagnostics = [], DataSourceData = Some (NewClient ''abc123''),
        ResourceData = Some (NewClient ''abc123'')\<rparr>
   \<and> SanityProvider_Configure Map.empty
       ([], \<lparr>Token = \<lparr>Unknown = False, Null = True, Value = []\<rparr>\<rparr>)
     = \<lparr>ConfigureDiagnostics =
          [\<lparr>Severity = SeverityError, Summary = ''Unable to find token'',
            Detail = ''Token cannot be an empty string''\<rparr>],
        DataSourceData = None, ResourceData = None\<rparr>
   \<and> SanityProvider_Configure [''SANITY_TOKEN'' \<mapsto> ''abc123'']
       ([], \<lparr>Token = \<lparr>Unknown = False, Null = False, Value = ''xxx''\<rparr>\<rparr>)
     = \<lparr>ConfigureDiagnostics = [], DataSourceData = Some (NewClient ''xxx''),
        ResourceData = Some (NewClient ''xxx'')\<rparr>"
proof -
  have h: "\<not> HasError (fst (([]::Diagnostics), x))" for x :: SanityProviderModel
    by simp
  have eq: "resp = \<lparr>ConfigureDiagnostics = ConfigureDiagnostics resp,
                    DataSourceData = DataSourceData resp,
                    ResourceData = ResourceData resp\<rparr>" for resp :: ConfigureResponse
    by simp
  show ?thesis
    using Configure_token_resolution [where env = "[''SANITY_TOKEN'' \<mapsto> ''abc123'']"
            and req = "([], \<lparr>Token = \<lparr>Unknown = False, Null = True, Value = []\<rparr>\<rparr>)", OF h]
          Configure_token_resolution [where env = Map.empty
            and req = "([], \<lparr>Token = \<lparr>Unknown = False, Null = True, Value = []\<rparr>\<rparr>)", OF h]
          Configure_token_resolution [where env = "[''SANITY_TOKEN'' \<mapsto> ''abc123'']"
            and req = "([], \<lparr>Token = \<lparr>Unknown = False, Null = False, Value = ''xxx''\<rparr>\<rparr>)",
            OF h]
    by (subst (1 2 3) eq) (simp add: Getenv_def AddError_def)
qed

section \<open>Dataset Resource: import\<close>

lemma Split_no_sep: "sep \<notin> set s \<Longrightarrow> Split s sep = [s]"
proof -
  assume "sep \<notin> set s"
  then have "dropWhile (\<lambda>c. c \<noteq> sep) s = []" by auto
  then show ?thesis by (subst Split.simps) (simp only: list.case)
qed

lemma Split_first_sep:
  assumes "sep \<notin> set p"
  shows "Split (p @ sep # r) sep = p # Split r sep"
proof -
  from assms have a: "\<And>c. c \<in> set p \<Longrightarrow> c \<noteq> sep" by auto
  have d: "dropWhile (\<lambda>c. c \<noteq> sep) (p @ sep # r) = sep # r"
    using a by (simp add: dropWhile_append2)
  have t: "takeWhile (\<lambda>c. c \<noteq> sep) (p @ sep # r) = p"
    using a by (simp add: takeWhile_append2)
  show ?thesis
    by (subst Split.simps) (simp only: d t list.case)
qed

lemma length_Split: "length (Split s sep) = Suc (count_list s sep)"
proof (induction s sep rule: Split.induct)
  case (1 s sep)
  show ?case
  proof (cases "dropWhile (\<lambda>c. c \<noteq> sep) s")
    case Nil
    then have "sep \<notin> set s" by (auto simp: dropWhile_eq_Nil_conv)
    then show ?thesis by (simp add: Split_no_sep count_list_0_iff)
  next
    case (Cons x rest)
    then have x: "x = sep" using hd_dropWhile[of "\<lambda>c. c \<noteq> sep" s] by force
    have s: "s = takeWhile (\<lambda>c. c \<noteq> sep) s @ sep # rest"
      using Cons x takeWhile_dropWhile_id[of "\<lambda>c. c \<noteq> sep" s] by simp
    have "sep \<notin> set (takeWhile (\<lambda>c. c \<noteq> sep) s)"
      by (auto dest: set_takeWhileD)
    then have c0: "count_list (takeWhile (\<lambda>c. c \<noteq> sep) s) sep = 0"
      by (simp add: count_list_0_iff)
    have "count_list s sep = Suc (count_list rest sep)"
      by (subst s) (simp add: c0)
    moreover have "length (Split s sep) = Suc (length (Split rest sep))"
      by (subst Split.simps) (simp add: Cons)
    ultimately show ?thesis using 1[OF Cons] by simp
  qed
qed

lemma Split_two_parts:
  assumes "count_list s sep = 1"
  shows "Split s sep = [takeWhile (\<lambda>c. c \<noteq> sep) s, tl (dropWhile (\<lambda>c. c \<noteq> sep) s)]"
proof -
  let ?p = "takeWhile (\<lambda>c. c \<noteq> sep) s" and ?d = "dropWhile (\<lambda>c. c \<noteq> sep) s"
  have p: "sep \<notin> set ?p" by (auto dest: set_takeWhileD)
  from assms have "sep \<in> set s" by (metis count_list_0_iff zero_neq_one)
  then have "?d \<noteq> []" by (auto simp: dropWhile_eq_Nil_conv)
  then have "hd ?d = sep" using hd_dropWhile[of "\<lambda>c. c \<noteq> sep" s] by simp
  with \<open>?d \<noteq> []\<close> have d: "?d = sep # tl ?d" by (cases ?d) auto
  have s: "s = ?p @ sep # tl ?d"
    using takeWhile_dropWhile_id[of "\<lambda>c. c \<noteq> sep" s] d by metis
  have "count_list s sep = Suc (count_list (tl ?d) sep)"
    using p by (subst s) (simp add: count_list_0_iff)
  with assms have "sep \<notin> set (tl ?d)" by (simp add: count_list_0_iff)
  then have "Split (tl ?d) sep = [tl ?d]" by (rule Split_no_sep)
  moreover have "Split s sep = ?p # Split (tl ?d) sep"
    using Split_first_sep[OF p, of "tl ?d"] s by simp
  ultimately show ?thesis by simp
qed

text \<open>
  C8. Dataset import splits the identifier at every "/" and needs exactly two parts,
  that is, exactly one separator. With one separator the part before it becomes
  \<open>project\<close> and the part after it \<open>name\<close>, and no diagnostic is added; with no
  separator or more than one, the import adds the input-format error and sets no
  attribute. So "proj123/production" gives project "proj123" and name "production", and
  "proj123" fails.
\<close>

theorem DatasetResource_ImportState_parts:
  "(count_list ident CHR ''/'' = 1 \<longrightarrow>
      DatasetResource_ImportState ident =
        \<lparr>ImportDiagnostics = [],
         ImportedState = [''project'' \<mapsto> takeWhile (\<lambda>c. c \<noteq> CHR ''/'') ident,
                          ''name'' \<mapsto> tl (dropWhile (\<lambda>c. c \<noteq> CHR ''/'') ident)]\<rparr>)
   \<and> (\<forall>p n. ident = p @ ''/'' @ n \<and> CHR ''/'' \<notin> set p \<and> CHR ''/'' \<notin> set n \<longrightarrow>
        DatasetResource_ImportState ident =
          \<lparr>ImportDiagnostics = [], ImportedState = [''project'' \<mapsto> p, ''name'' \<mapsto> n]\<rparr>)
   \<and> (count_list ident CHR ''/'' \<noteq> 1 \<longrightarrow>
        DatasetResource_ImportState ident =
          \<lparr>ImportDiagnostics =
             [\<lparr>Severity = SeverityError, Summary = ''Input Error'',
               Detail = ''The import identifier for a dataset should be in the form project-id/dataset-name''\<rparr>],
           ImportedState = Map.empty\<rparr>)
   \<and> (length (Split ident CHR ''/'') = 2 \<longleftrightarrow> count_list ident CHR ''/'' = 1)"
proof (intro conjI impI allI)
  assume one: "count_list ident CHR ''/'' = 1"
  show "DatasetResource_ImportState ident =
        \<lparr>ImportDiagnostics = [],
         ImportedState = [''project'' \<mapsto> takeWhile (\<lambda>c. c \<noteq> CHR ''/'') ident,
                          ''name'' \<mapsto> tl (dropWhile (\<lambda>c. c \<noteq> CHR ''/'') ident)]\<rparr>"
    by (simp add: DatasetResource_ImportState_def Split_two_parts[OF one]
          ImportStatePassthroughID_def)
next
  fix p n
  assume h: "ident = p @ ''/'' @ n \<and> CHR ''/'' \<notin> set p \<and> CHR ''/'' \<notin> set n"
  then have "Split ident CHR ''/'' = [p, n]"
    using Split_first_sep[of "CHR ''/''" p n] Split_no_sep[of "CHR ''/''" n] by simp
  then show "DatasetResource_ImportState ident =
          \<lparr>ImportDiagnostics = [], ImportedState = [''project'' \<mapsto> p, ''name'' \<mapsto> n]\<rparr>"
    by (simp add: DatasetResource_ImportState_def ImportStatePassthroughID_def)
next
  assume "count_list ident CHR ''/'' \<noteq> 1"
  then have "length (Split ident CHR ''/'') \<noteq> 2" by (simp add: length_Split)
  then show "DatasetResource_ImportState ident =
          \<lparr>ImportDiagnostics =
             [\<lparr>Severity = SeverityError, Summary = ''Input Error'',
               Detail = ''The import identifier for a dataset should be in the form project-id/dataset-name''\<rparr>],
           ImportedState = Map.empty\<rparr>"
    by (simp add: DatasetResource_ImportState_def AddError_def)
next
  show "length (Split ident CHR ''/'') = 2 \<longleftrightarrow> count_list ident CHR ''/'' = 1"
    by (simp add: length_Split)
qed

theorem DatasetResource_ImportState_parts_witness:
  "DatasetResource_ImportState ''proj123/production'' =
     \<lparr>ImportDiagnostics = [],
      ImportedState = [''project'' \<mapsto> ''proj123'', ''name'' \<mapsto> ''production'']\<rparr>
   \<and> DatasetResource_ImportState ''proj123'' =
     \<lparr>ImportDiagnostics =
        [\<lparr>Severity = SeverityError, Summary = ''Input Error'',
          Detail = ''The import identifier for a dataset should be in the form project-id/dataset-name''\<rparr>],
      ImportedState = Map.empty\<rparr>
   \<and> DatasetResource_ImportState ''a/b/c'' =
     \<lparr>ImportDiagnostics =
        [\<lparr>Severity = SeverityError, Summary = ''Input Error'',
          Detail = ''The import identifier for a dataset should be in the form project-id/dataset-name''\<rparr>],
      ImportedState = Map.empty\<rparr>"
  using DatasetResource_ImportState_parts [of "''proj123/production''"]
        DatasetResource_ImportState_parts [of "''proj123''"]
        DatasetResource_ImportState_parts [of "''a/b/c''"]
  by simp

section \<open>Unsupported updates\<close>

text \<open>
  C5. Update of the CORS Origin Resource and of the Dataset Resource, for
  every client, request and backend state, makes no backend call and leaves exactly one
  diagnostic, an error with the summary "Provider Error"; its text is "Update is not
  supported on CORS entry" for the CORS origin and "Update is not supported on dataset"
  for the dataset.
\<close>

theorem Update_not_supported:
  "CORSOriginResource_Update c req s =
     \<lparr>Diagnostics = [\<lparr>Severity = SeverityError, Summary = ''Provider Error'',
                       Detail = ''Update is not supported on CORS entry''\<rparr>],
      State = None, Panicked = False, World = \<lparr>Backend = s, Calls = []\<rparr>\<rparr>
   \<and> DatasetResource_Update c' req' s' =
     \<lparr>Diagnostics = [\<lparr>Severity = SeverityError, Summary = ''Provider Error'',
                       Detail = ''Update is not supported on dataset''\<rparr>],
      State = None, Panicked = False, World = \<lparr>Backend = s', Calls = []\<rparr>\<rparr>"
  by (simp add: CORSOriginResource_Update_def DatasetResource_Update_def Return_def
        AddError_def start_def)

text \<open>
  C5, the wording. The text of the CORS origin's error is not "Update is not supported
  on cors entry": the code writes CORS in capitals.
\<close>

theorem Update_text_counterexample:
  "map Detail (Diagnostics (CORSOriginResource_Update accepting
       ([], \<lparr>CORSOriginResourceModel.Id = Known ''2'',
              CORSOriginResourceModel.Origin = Known ''https://c'',
              CORSOriginResourceModel.AllowCredentials = Known True,
              CORSOriginResourceModel.Project = Known ''p1''\<rparr>) ()))
   \<noteq> [''Update is not supported on cors entry'']"
  by (simp add: CORSOriginResource_Update_def Return_def AddError_def)

section \<open>Dataset Resource: read, delete and create\<close>

text \<open>
  C7. Dataset Read has no check of its identifiers: whenever the stored state decodes,
  it calls the backend's dataset listing with the value of the stored project, also
  when the project or the name is null (the value of a null string is the empty
  string), and it adds no "is null" diagnostic. Dataset Delete, on the same state,
  stops at "Project is null" before any call.
\<close>

theorem DatasetResource_Read_null_identifier:
  assumes "\<not> HasError (fst req)"
  shows "Calls (World (DatasetResource_Read c req s))
           = [CallListDatasets (Value (DatasetResourceModel.Project (snd req)))]
     \<and> (Diagnostics (DatasetResource_Read c req s) = Append [] (fst req)
        \<or> Diagnostics (DatasetResource_Read c req s)
             = AddError ''dataset not found'' ''dataset not found'' (Append [] (fst req))
        \<or> (\<exists>e. Diagnostics (DatasetResource_Read c req s)
                  = AddError ''Client Error'' e (Append [] (fst req))))"
  using assms
  by (auto simp: DatasetResource_Read_def Let_def invoke_eq start_def Return_def
        split: prod.splits option.splits)

theorem DatasetResource_Read_null_identifier_witness:
  "Calls (World (DatasetResource_Read accepting
       ([], \<lparr>DatasetResourceModel.Project = NullString,
              DatasetResourceModel.Name = Known ''production'',
              DatasetResourceModel.AclMode = NullString\<rparr>) ()))
     = [CallListDatasets []]
   \<and> Diagnostics (DatasetResource_Read accepting
       ([], \<lparr>DatasetResourceModel.Project = NullString,
              DatasetResourceModel.Name = Known ''production'',
              DatasetResourceModel.AclMode = NullString\<rparr>) ()) = []
   \<and> Calls (World (DatasetResource_Read refusing
       ([], \<lparr>DatasetResourceModel.Project = Known ''p1'',
              DatasetResourceModel.Name = NullString,
              DatasetResourceModel.AclMode = NullString\<rparr>) ()))
     = [CallListDatasets ''p1'']
   \<and> Diagnostics (DatasetResource_Read refusing
       ([], \<lparr>DatasetResourceModel.Project = Known ''p1'',
              DatasetResourceModel.Name = NullString,
              DatasetResourceModel.AclMode = NullString\<rparr>) ())
     = [\<lparr>Severity = SeverityError, Summary = ''Client Error'', Detail = ''boom''\<rparr>]
   \<and> Calls (World (DatasetResource_Delete accepting
       ([], \<lparr>DatasetResourceModel.Project = NullString,
              DatasetResourceModel.Name = Known ''production'',
              DatasetResourceModel.AclMode = NullString\<rparr>) ())) = []
   \<and> Diagnostics (DatasetResource_Delete accepting
       ([], \<lparr>DatasetResourceModel.Project = NullString,
              DatasetResourceModel.Name = Known ''production'',
              DatasetResourceModel.AclMode = NullString\<rparr>) ())
     = [\<lparr>Severity = SeverityError, Summary = ''Project is null'', Detail = ''Project is null''\<rparr>]"
proof -
  let ?a = "\<lparr>DatasetResourceModel.Project = NullString,
              DatasetResourceModel.Name = Known ''production'',
              DatasetResourceModel.AclMode = NullString\<rparr>"
  let ?b = "\<lparr>DatasetResourceModel.Project = Known ''p1'',
              DatasetResourceModel.Name = NullString,
              DatasetResourceModel.AclMode = NullString\<rparr>"
  have h: "\<not> HasError (fst (([]::Diagnostics), x))" for x :: DatasetResourceModel
    by simp
  have a: "Calls (World (DatasetResource_Read accepting ([], ?a) ())) = [CallListDatasets []]"
    using DatasetResource_Read_null_identifier [OF h, of accepting ?a "()"]
    by (simp add: NullString_def)
  have b: "Calls (World (DatasetResource_Read refusing ([], ?b) ())) = [CallListDatasets ''p1'']"
    using DatasetResource_Read_null_identifier [OF h, of refusing ?b "()"]
    by (simp add: Known_def)
  have d: "Diagnostics (DatasetResource_Read accepting ([], ?a) ()) = []"
    "Diagnostics (DatasetResource_Read refusing ([], ?b) ())
       = [\<lparr>Severity = SeverityError, Summary = ''Client Error'', Detail = ''boom''\<rparr>]"
    "Calls (World (DatasetResource_Delete accepting ([], ?a) ())) = []"
    "Diagnostics (DatasetResource_Delete accepting ([], ?a) ())
       = [\<lparr>Severity = SeverityError, Summary = ''Project is null'', Detail = ''Project is null''\<rparr>]"
    by (simp_all add: DatasetResource_Read_def DatasetResource_Delete_def accepting_def
          refusing_def NullString_def Known_def invoke_def start_def Return_def AddError_def)
  from a b d show ?thesis by simp
qed

text \<open>
  C10. When the plan decodes and the backend's create call returns no error, Dataset
  Create writes the planned model to state as it is: project, name and acl mode are the
  planned values whatever dataset the backend returned, and no diagnostic is added.
\<close>

theorem DatasetResource_Create_state_is_plan:
  assumes "\<not> HasError (fst req)"
    and "snd (fst (Projects_CreateDataset c (Value (DatasetResourceModel.Project (snd req)))
             \<lparr>CreateDatasetRequest.Name = Value (DatasetResourceModel.Name (snd req)),
              CreateDatasetRequest.AclMode = Value (DatasetResourceModel.AclMode (snd req))\<rparr> s))
         = None"
  shows "State (DatasetResource_Create c req s) = Some (snd req)
     \<and> DatasetResourceModel.Project (the (State (DatasetResource_Create c req s)))
         = DatasetResourceModel.Project (snd req)
     \<and> DatasetResourceModel.Name (the (State (DatasetResource_Create c req s)))
         = DatasetResourceModel.Name (snd req)
     \<and> DatasetResourceModel.AclMode (the (State (DatasetResource_Create c req s)))
         = DatasetResourceModel.AclMode (snd req)
     \<and> Diagnostics (DatasetResource_Create c req s) = Append [] (fst req)
     \<and> \<not> Panicked (DatasetResource_Create c req s)"
  using assms
  by (auto simp: DatasetResource_Create_def Let_def invoke_def start_def Return_def
        split: prod.splits option.splits)

theorem DatasetResource_Create_state_is_plan_witness:
  "State (DatasetResource_Create accepting
       ([], \<lparr>DatasetResourceModel.Project = Known ''p1'',
              DatasetResourceModel.Name = Known ''production'',
              DatasetResourceModel.AclMode = Known ''public''\<rparr>) ())
   = Some \<lparr>DatasetResourceModel.Project = Known ''p1'',
           DatasetResourceModel.Name = Known ''production'',
           DatasetResourceModel.AclMode = Known ''public''\<rparr>
   \<and> fst (fst (Projects_CreateDataset accepting ''p1''
         \<lparr>CreateDatasetRequest.Name = ''production'',
          CreateDatasetRequest.AclMode = ''public''\<rparr> ()))
     = Some \<lparr>Dataset.Name = ''production'', Dataset.AclMode = ''private''\<rparr>"
  using DatasetResource_Create_state_is_plan [of
      "([], \<lparr>DatasetResourceModel.Project = Known ''p1'',
              DatasetResourceModel.Name = Known ''production'',
              DatasetResourceModel.AclMode = Known ''public''\<rparr>)" accepting "()"]
  by (simp add: accepting_def Known_def)

section \<open>Entry ids: rendering and scanning\<close>

lemma digits_mem:
  assumes "c \<in> set digits"
  shows "isDigit c" and "scanDigit c" and "c \<noteq> CHR ''+''" and "c \<noteq> CHR ''-''"
    and "(of_char c :: nat) < 0x80 \<and> \<not> isSpace (of_char c) \<and> (of_char c :: nat) \<noteq> 10"
  using assms by (auto simp: digits_def isDigit_def scanDigit_def isSpace_def)

lemma scanDigit_digits: "scanDigit c \<longleftrightarrow> c \<in> set digits"
  by (simp add: scanDigit_def digits_def)

lemma SkipSpace_stop:
  assumes "(of_char c :: nat) < 0x80 \<and> \<not> isSpace (of_char c) \<and> (of_char c :: nat) \<noteq> 10"
  shows "SkipSpace (c # cs) = Inr (c # cs)"
  using assms by (subst SkipSpace.simps) (simp add: DecodeRune_def Let_def)

lemma digits_nth:
  assumes "d < 10"
  shows "digits ! d \<in> set digits" and "(of_char (digits ! d) :: nat) - 48 = d"
proof -
  from assms have "d \<in> {0, 1, 2, 3, 4, 5, 6, 7, 8, 9}" by auto
  then show "(of_char (digits ! d) :: nat) - 48 = d"
    by (auto simp: digits_def)
  have "length digits = 10" by (simp add: digits_def)
  with assms show "digits ! d \<in> set digits"
    by (metis nth_mem)
qed

lemma decimal_digits: "set (decimal n) \<subseteq> set digits"
proof (induction n rule: decimal.induct)
  case (1 n)
  show ?case
  proof (cases "n < 10")
    case True
    then show ?thesis by (subst decimal.simps) (simp add: digits_nth(1))
  next
    case False
    then have "set (decimal (n div 10)) \<subseteq> set digits" by (rule 1)
    moreover have "digits ! (n mod 10) \<in> set digits" by (simp add: digits_nth(1))
    ultimately show ?thesis using False by (subst decimal.simps) simp
  qed
qed

lemma decimal_not_Nil: "decimal n \<noteq> []"
  by (subst decimal.simps) simp

lemma accumulate_simps [simp]:
  "accumulate n [] = n"
  "accumulate n (c # cs) = accumulate (n * 10 + (of_char c - 48)) cs"
  "accumulate n (cs @ [c]) = accumulate n cs * 10 + (of_char c - 48)"
  by (simp_all add: accumulate_def)

lemma accumulate_ge: "n \<le> accumulate n cs"
proof (induction cs arbitrary: n)
  case Nil
  show ?case by simp
next
  case (Cons c cs)
  have "n \<le> n * 10 + (of_char c - 48)" by simp
  also have "\<dots> \<le> accumulate (n * 10 + (of_char c - 48)) cs" by (rule Cons.IH)
  finally show ?case by simp
qed

lemma accumulate_decimal: "accumulate 0 (decimal n) = n"
proof (induction n rule: decimal.induct)
  case (1 n)
  show ?case
  proof (cases "n < 10")
    case True
    then show ?thesis by (subst decimal.simps) (simp add: digits_nth(2))
  next
    case False
    then have "accumulate 0 (decimal (n div 10)) = n div 10" by (rule 1)
    then show ?thesis using False
      by (subst decimal.simps) (simp add: digits_nth(2))
  qed
qed

lemma ParseUint_loop_digits:
  assumes "set cs \<subseteq> set digits" and "accumulate n cs \<le> maxUint64"
  shows "ParseUint_loop n cs = (accumulate n cs, None)"
  using assms
proof (induction cs arbitrary: n)
  case Nil
  show ?case by simp
next
  case (Cons c cs)
  let ?n1 = "n * 10 + (of_char c - 48)"
  from Cons.prems have c: "isDigit c" by (simp add: digits_mem(1))
  have "?n1 \<le> accumulate ?n1 cs" by (rule accumulate_ge)
  with Cons.prems(2) have n1: "?n1 \<le> maxUint64" by simp
  then have n: "\<not> n \<ge> maxUint64 div 10 + 1" by (simp add: maxUint64_def)
  have "ParseUint_loop ?n1 cs = (accumulate ?n1 cs, None)"
    using Cons.prems by (intro Cons.IH) simp_all
  with c n n1 show ?case by (simp add: Let_def)
qed

lemma ParseUint_decimal:
  assumes "n \<le> maxUint64"
  shows "ParseUint (decimal n) = (n, None)"
  using ParseUint_loop_digits[OF decimal_digits, of 0 n] assms
  by (simp add: ParseUint_def decimal_not_Nil accumulate_decimal)

lemma takeWhile_scanDigit_decimal:
  assumes "rest = [] \<or> \<not> scanDigit (hd rest)"
  shows "takeWhile scanDigit (decimal n @ rest) = decimal n"
proof -
  have all: "\<forall>c\<in>set (decimal n). scanDigit c"
    using decimal_digits[of n] by (auto simp: scanDigit_digits)
  show ?thesis
  proof (cases rest)
    case Nil
    with all show ?thesis by (simp add: takeWhile_eq_all_conv)
  next
    case (Cons x xs)
    with assms have "\<not> scanDigit x" by simp
    with all Cons show ?thesis by (simp add: takeWhile_tail)
  qed
qed

lemma decimal_Cons: obtains d ds where "decimal n = d # ds" and "d \<in> set digits"
  using decimal_not_Nil[of n] decimal_digits[of n] by (cases "decimal n") auto

lemma Sscanf_d_decimal:
  assumes "n < 2 ^ 63" and "rest = [] \<or> \<not> scanDigit (hd rest)"
  shows "Sscanf_d (decimal n @ rest) = Inr (word_of_nat n)"
proof -
  obtain d ds where dec: "decimal n = d # ds" and d: "d \<in> set digits"
    by (rule decimal_Cons)
  from assms(1) have "n \<le> maxUint64" by (simp add: maxUint64_def)
  then have pu: "ParseUint (d # ds) = (n, None)"
    using ParseUint_decimal[of n] dec by simp
  have tw: "takeWhile scanDigit (ds @ rest) = ds"
    using takeWhile_scanDigit_decimal[OF assms(2), of n] dec digits_mem(2)[OF d] by simp
  have pi: "ParseInt (d # ds) = Inr (word_of_nat n)"
    using assms(1) digits_mem(3,4)[OF d] by (simp add: ParseInt_def pu)
  have sk: "SkipSpace (d # ds @ rest) = Inr (d # ds @ rest)"
    by (rule SkipSpace_stop) (rule digits_mem(5)[OF d])
  show ?thesis
    using digits_mem(2,3,4)[OF d] by (simp add: Sscanf_d_def dec sk tw pi)
qed

lemma Sscanf_d_minus_decimal:
  assumes "n \<le> 2 ^ 63" and "rest = [] \<or> \<not> scanDigit (hd rest)"
  shows "Sscanf_d (CHR ''-'' # decimal n @ rest) = Inr (- word_of_nat n)"
proof -
  obtain d ds where dec: "decimal n = d # ds" and d: "d \<in> set digits"
    by (rule decimal_Cons)
  from assms(1) have "n \<le> maxUint64" by (simp add: maxUint64_def)
  then have pu: "ParseUint (d # ds) = (n, None)"
    using ParseUint_decimal[of n] dec by simp
  have tw: "takeWhile scanDigit (ds @ rest) = ds"
    using takeWhile_scanDigit_decimal[OF assms(2), of n] dec digits_mem(2)[OF d] by simp
  have pi: "ParseInt (CHR ''-'' # d # ds) = Inr (- word_of_nat n)"
    using assms(1) by (simp add: ParseInt_def pu)
  have sk: "SkipSpace (CHR ''-'' # d # ds @ rest) = Inr (CHR ''-'' # d # ds @ rest)"
    by (rule SkipSpace_stop) (simp add: isSpace_def)
  show ?thesis
    using digits_mem(2)[OF d] by (simp add: Sscanf_d_def dec sk tw pi)
qed

lemma Sscanf_d_Sprintf_d_rest:
  assumes "rest = [] \<or> \<not> scanDigit (hd rest)"
  shows "Sscanf_d (Sprintf_d i @ rest) = Inr i"
proof (cases "sint i < 0")
  case True
  have "- sint i \<le> 2 ^ 63" using sint_ge[of i] by simp
  then have "nat (- sint i) \<le> 2 ^ 63" by simp
  then have "Sscanf_d (CHR ''-'' # decimal (nat (- sint i)) @ rest)
               = Inr (- word_of_nat (nat (- sint i)))"
    using assms by (rule Sscanf_d_minus_decimal)
  moreover have "- word_of_nat (nat (- sint i)) = i"
    using True by (simp add: word_of_nat_eq_iff)
  ultimately show ?thesis using True by (simp add: Sprintf_d_def)
next
  case False
  have "sint i < 2 ^ 63" using sint_lt[of i] by simp
  then have "nat (sint i) < 2 ^ 63" using False by simp
  then have "Sscanf_d (decimal (nat (sint i)) @ rest) = Inr (word_of_nat (nat (sint i)))"
    using assms by (rule Sscanf_d_decimal)
  moreover have "word_of_nat (nat (sint i)) = i"
    using False by simp
  ultimately show ?thesis using False by (simp add: Sprintf_d_def)
qed

lemma Sscanf_d_Sprintf_d: "Sscanf_d (Sprintf_d i) = Inr i"
  using Sscanf_d_Sprintf_d_rest[of "[]" i] by simp

section \<open>CORS Origin Resource: the stored id\<close>

lemma CORSOriginResource_Create_call:
  fixes c :: "'s Client" and req :: "CORSOriginResourceModel Get" and s :: 's
  defines "data \<equiv> snd req"
  defines "corsReq \<equiv>
      \<lparr>CreateCORSEntryRequest.Origin = Value (CORSOriginResourceModel.Origin data),
       CreateCORSEntryRequest.AllowCredentials =
         Some (if Null (CORSOriginResourceModel.AllowCredentials data) then True
               else Value (CORSOriginResourceModel.AllowCredentials data))\<rparr>"
  assumes "\<not> HasError (fst req)"
    and "Projects_CreateCORSEntry c (Value (CORSOriginResourceModel.Project data)) corsReq s
           = ((p, e), s1)"
  shows "CORSOriginResource_Create c req s =
     (case e of
        Some err \<Rightarrow>
          Return (AddError ''Client Error'' err (Append [] (fst req))) None
            \<lparr>Backend = s1,
             Calls = [CallCreateCORSEntry (Value (CORSOriginResourceModel.Project data)) corsReq]\<rparr>
      | None \<Rightarrow>
          (case p of
             None \<Rightarrow>
               NilDereference (Append [] (fst req))
                 \<lparr>Backend = s1,
                  Calls = [CallCreateCORSEntry (Value (CORSOriginResourceModel.Project data))
                             corsReq]\<rparr>
           | Some entry \<Rightarrow>
               Return (Append [] (fst req))
                 (Some (data\<lparr>CORSOriginResourceModel.Id := Known (Sprintf_d (CORSEntry.Id entry)),
                             CORSOriginResourceModel.AllowCredentials :=
                               Known (CORSEntry.AllowCredentials entry)\<rparr>))
                 \<lparr>Backend = s1,
                  Calls = [CallCreateCORSEntry (Value (CORSOriginResourceModel.Project data))
                             corsReq]\<rparr>))"
proof (cases "Null (CORSOriginResourceModel.AllowCredentials (snd req))")
  case True
  with assms(3,4) show ?thesis
    by (simp add: CORSOriginResource_Create_def data_def corsReq_def Let_def invoke_def
          start_def split: option.splits)
next
  case False
  with assms(3,4) show ?thesis
    by (simp add: CORSOriginResource_Create_def data_def corsReq_def Let_def invoke_def
          start_def split: option.splits)
qed

text \<open>
  C9. Scanning the decimal rendering of a 64-bit integer gives that integer back, for
  every such integer. When the backend's create call returns an entry and no error,
  CORS Origin Create stores the rendering of that entry's id; and every state Create
  writes comes from such a call, holds the rendering of the returned entry's id as a
  non-null id and scans back to that very id. So Delete on that state reaches the
  backend's delete call with the server-assigned id, and Read, once the listing
  succeeds, looks that id up and ends in the state refresh or in "cors entry not
  found", never in the error of the scan.
\<close>

theorem entry_id_roundtrip:
  fixes c :: "'s Client" and req :: "CORSOriginResourceModel Get" and s :: 's
    and c' :: "'t Client" and s' :: 't
  defines "data \<equiv> snd req"
  defines "corsReq \<equiv>
      \<lparr>CreateCORSEntryRequest.Origin = Value (CORSOriginResourceModel.Origin data),
       CreateCORSEntryRequest.AllowCredentials =
         Some (if Null (CORSOriginResourceModel.AllowCredentials data) then True
               else Value (CORSOriginResourceModel.AllowCredentials data))\<rparr>"
  shows "Sscanf_d (Sprintf_d i) = Inr i
   \<and> (\<forall>entry s1. \<not> HasError (fst req)
          \<and> Projects_CreateCORSEntry c (Value (CORSOriginResourceModel.Project data)) corsReq s
              = ((Some entry, None), s1) \<longrightarrow>
        State (CORSOriginResource_Create c req s) =
          Some (data\<lparr>CORSOriginResourceModel.Id := Known (Sprintf_d (CORSEntry.Id entry)),
                      CORSOriginResourceModel.AllowCredentials :=
                        Known (CORSEntry.AllowCredentials entry)\<rparr>))
   \<and> (\<forall>st. State (CORSOriginResource_Create c req s) = Some st \<longrightarrow>
        (\<exists>entry s1.
           Projects_CreateCORSEntry c (Value (CORSOriginResourceModel.Project data)) corsReq s
             = ((Some entry, None), s1)
           \<and> CORSOriginResourceModel.Id st = Known (Sprintf_d (CORSEntry.Id entry))
           \<and> \<not> Null (CORSOriginResourceModel.Id st)
           \<and> Sscanf_d (Value (CORSOriginResourceModel.Id st)) = Inr (CORSEntry.Id entry)
           \<and> (\<not> Null (CORSOriginResourceModel.Project st) \<longrightarrow>
                Calls (World (CORSOriginResource_Delete c' ([], st) s'))
                  = [CallDeleteCORSEntry (Value (CORSOriginResourceModel.Project st))
                       (CORSEntry.Id entry)])
           \<and> (\<forall>entries s''. \<not> Null (CORSOriginResourceModel.Project st) \<and>
                Projects_ListCORSEntries c' (Value (CORSOriginResourceModel.Project st)) s'
                  = ((entries, None), s'') \<longrightarrow>
                Diagnostics (CORSOriginResource_Read c' ([], st) s') =
                  (case find (\<lambda>e. CORSEntry.Id e = CORSEntry.Id entry) entries of
                     None \<Rightarrow> [\<lparr>Severity = SeverityError, Summary = ''cors entry not found'',
                                Detail = ''cors entry not found''\<rparr>]
                   | Some found \<Rightarrow> []))))"
proof -
  let ?project = "Value (CORSOriginResourceModel.Project data)"
  have 1: "Sscanf_d (Sprintf_d i) = Inr i" by (rule Sscanf_d_Sprintf_d)
  have 2: "State (CORSOriginResource_Create c req s) =
          Some (data\<lparr>CORSOriginResourceModel.Id := Known (Sprintf_d (CORSEntry.Id entry)),
                      CORSOriginResourceModel.AllowCredentials :=
                        Known (CORSEntry.AllowCredentials entry)\<rparr>)"
    if "\<not> HasError (fst req)
          \<and> Projects_CreateCORSEntry c ?project corsReq s = ((Some entry, None), s1)"
    for entry s1
    using that CORSOriginResource_Create_call[of req c s "Some entry" None s1]
    unfolding data_def corsReq_def by (simp add: Return_def)
  have 3: "\<exists>entry s1.
           Projects_CreateCORSEntry c ?project corsReq s = ((Some entry, None), s1)
           \<and> CORSOriginResourceModel.Id st = Known (Sprintf_d (CORSEntry.Id entry))
           \<and> \<not> Null (CORSOriginResourceModel.Id st)
           \<and> Sscanf_d (Value (CORSOriginResourceModel.Id st)) = Inr (CORSEntry.Id entry)
           \<and> (\<not> Null (CORSOriginResourceModel.Project st) \<longrightarrow>
                Calls (World (CORSOriginResource_Delete c' ([], st) s'))
                  = [CallDeleteCORSEntry (Value (CORSOriginResourceModel.Project st))
                       (CORSEntry.Id entry)])
           \<and> (\<forall>entries s''. \<not> Null (CORSOriginResourceModel.Project st) \<and>
                Projects_ListCORSEntries c' (Value (CORSOriginResourceModel.Project st)) s'
                  = ((entries, None), s'') \<longrightarrow>
                Diagnostics (CORSOriginResource_Read c' ([], st) s') =
                  (case find (\<lambda>e. CORSEntry.Id e = CORSEntry.Id entry) entries of
                     None \<Rightarrow> [\<lparr>Severity = SeverityError, Summary = ''cors entry not found'',
                                Detail = ''cors entry not found''\<rparr>]
                   | Some found \<Rightarrow> []))"
    if st: "State (CORSOriginResource_Create c req s) = Some st" for st
  proof -
    from st have ok: "\<not> HasError (fst req)"
      by (auto simp: CORSOriginResource_Create_def Let_def Return_def)
    obtain p e s1 where call: "Projects_CreateCORSEntry c ?project corsReq s = ((p, e), s1)"
      by (metis prod.exhaust)
    note C = CORSOriginResource_Create_call[OF ok call[unfolded corsReq_def data_def]]
    from st C obtain entry where p: "p = Some entry" and e: "e = None"
      by (cases e; cases p) (simp_all add: Return_def NilDereference_def)
    from st C p e
    have st': "st = (snd req)\<lparr>CORSOriginResourceModel.Id := Known (Sprintf_d (CORSEntry.Id entry)),
                         CORSOriginResourceModel.AllowCredentials :=
                           Known (CORSEntry.AllowCredentials entry)\<rparr>"
      by (simp add: Return_def)
    let ?n = "CORSEntry.Id entry"
    have id: "CORSOriginResourceModel.Id st = Known (Sprintf_d ?n)"
      by (simp add: st')
    have nn: "\<not> Null (CORSOriginResourceModel.Id st)"
      by (simp add: id Known_def)
    have sc: "Sscanf_d (Value (CORSOriginResourceModel.Id st)) = Inr ?n"
      by (simp add: id Known_def Sscanf_d_Sprintf_d)
    have del: "Calls (World (CORSOriginResource_Delete c' ([], st) s'))
                 = [CallDeleteCORSEntry (Value (CORSOriginResourceModel.Project st)) ?n]"
      if "\<not> Null (CORSOriginResourceModel.Project st)"
      using that nn
      by (simp add: CORSOriginResource_Delete_def sc Let_def invoke_eq start_def Return_def
            split: option.splits)
    have rd: "Diagnostics (CORSOriginResource_Read c' ([], st) s') =
                (case find (\<lambda>e. CORSEntry.Id e = ?n) entries of
                   None \<Rightarrow> [\<lparr>Severity = SeverityError, Summary = ''cors entry not found'',
                              Detail = ''cors entry not found''\<rparr>]
                 | Some found \<Rightarrow> [])"
      if "\<not> Null (CORSOriginResourceModel.Project st) \<and>
          Projects_ListCORSEntries c' (Value (CORSOriginResourceModel.Project st)) s'
            = ((entries, None), s'')" for entries s''
      using that nn
      by (simp add: CORSOriginResource_Read_def sc Let_def invoke_eq start_def Return_def
            AddError_def split: option.splits)
    from call p e id nn sc del rd show ?thesis by blast
  qed
  from 1 2 3 show ?thesis by blast
qed

theorem entry_id_roundtrip_witness:
  "Sscanf_d (Sprintf_d (- 42)) = Inr (- 42)
   \<and> Sprintf_d (- 42) = ''-42''
   \<and> State (CORSOriginResource_Create accepting
        ([], \<lparr>CORSOriginResourceModel.Id = NullString,
               CORSOriginResourceModel.Origin = Known ''https://c'',
               CORSOriginResourceModel.AllowCredentials = NullBool,
               CORSOriginResourceModel.Project = Known ''p1''\<rparr>) ())
       = Some \<lparr>CORSOriginResourceModel.Id = Known ''-42'',
               CORSOriginResourceModel.Origin = Known ''https://c'',
               CORSOriginResourceModel.AllowCredentials = Known True,
               CORSOriginResourceModel.Project = Known ''p1''\<rparr>
   \<and> Calls (World (CORSOriginResource_Delete accepting
        ([], \<lparr>CORSOriginResourceModel.Id = Known ''-42'',
               CORSOriginResourceModel.Origin = Known ''https://c'',
               CORSOriginResourceModel.AllowCredentials = Known True,
               CORSOriginResourceModel.Project = Known ''p1''\<rparr>) ()))
       = [CallDeleteCORSEntry ''p1'' (- 42)]"
proof -
  let ?plan = "\<lparr>CORSOriginResourceModel.Id = NullString,
               CORSOriginResourceModel.Origin = Known ''https://c'',
               CORSOriginResourceModel.AllowCredentials = NullBool,
               CORSOriginResourceModel.Project = Known ''p1''\<rparr>"
  let ?st = "\<lparr>CORSOriginResourceModel.Id = Known ''-42'',
               CORSOriginResourceModel.Origin = Known ''https://c'',
               CORSOriginResourceModel.AllowCredentials = Known True,
               CORSOriginResourceModel.Project = Known ''p1''\<rparr>"
  let ?entry = "\<lparr>CORSEntry.Id = - 42, CORSEntry.Origin = ''https://c'',
                 CORSEntry.AllowCredentials = True\<rparr>"
  let ?rq = "\<lparr>CreateCORSEntryRequest.Origin =
                Value (CORSOriginResourceModel.Origin (snd (([]::Diagnostics), ?plan))),
              CreateCORSEntryRequest.AllowCredentials =
                Some (if Null (CORSOriginResourceModel.AllowCredentials
                                 (snd (([]::Diagnostics), ?plan))) then True
                      else Value (CORSOriginResourceModel.AllowCredentials
                                    (snd (([]::Diagnostics), ?plan))))\<rparr>"
  have p: "Sprintf_d (- 42) = ''-42''"
    by (simp add: Sprintf_d_def decimal.simps digits_def)
  have h: "\<not> HasError (fst (([]::Diagnostics), ?plan))
          \<and> Projects_CreateCORSEntry accepting
               (Value (CORSOriginResourceModel.Project (snd (([]::Diagnostics), ?plan)))) ?rq ()
              = ((Some ?entry, None), ())"
    by (simp add: accepting_def Known_def)
  note T = entry_id_roundtrip [of "- 42" "([], ?plan)" accepting "()" accepting "()"]
  from T have r: "Sscanf_d (Sprintf_d (- 42)) = Inr (- 42)" by blast
  from T h have "State (CORSOriginResource_Create accepting ([], ?plan) ()) =
          Some ((snd (([]::Diagnostics), ?plan))
                 \<lparr>CORSOriginResourceModel.Id := Known (Sprintf_d (CORSEntry.Id ?entry)),
                  CORSOriginResourceModel.AllowCredentials :=
                    Known (CORSEntry.AllowCredentials ?entry)\<rparr>)"
    by blast
  then have c: "State (CORSOriginResource_Create accepting ([], ?plan) ()) = Some ?st"
    by (simp add: p)
  from T c obtain entry s1 where
    call: "Projects_CreateCORSEntry accepting
               (Value (CORSOriginResourceModel.Project (snd (([]::Diagnostics), ?plan)))) ?rq ()
              = ((Some entry, None), s1)"
    and d: "\<not> Null (CORSOriginResourceModel.Project ?st) \<longrightarrow>
            Calls (World (CORSOriginResource_Delete accepting ([], ?st) ()))
              = [CallDeleteCORSEntry (Value (CORSOriginResourceModel.Project ?st))
                   (CORSEntry.Id entry)]"
    by blast
  from call h have "entry = ?entry" by simp
  with d have "Calls (World (CORSOriginResource_Delete accepting ([], ?st) ()))
              = [CallDeleteCORSEntry ''p1'' (- 42)]"
    by (simp add: Known_def)
  with r p c show ?thesis by simp
qed

section \<open>CORS Origin Resource: read\<close>

text \<open>
  C6. CORS Origin Read, with a stored id and project that are not null and a listing that
  succeeds, makes that one backend call and scans the stored id as a decimal integer. A
  scan that fails gives a "Client Error" diagnostic with the scanner's text and writes
  no state. Otherwise the first listed entry with that numeric id refreshes allow
  credentials and origin, with no diagnostic added; when no listed entry has the id,
  the error "cors entry not found" is added and no state is written. The scan of a
  stored id that is the decimal rendering of an integer, alone or followed by something
  that does not start with a digit, yields that integer. For the entries 1 at
  "https://a" and 2 at "https://b", the stored id "2" gives the origin "https://b" and
  the stored id "99" gives the not-found error.
\<close>

theorem CORSOriginResource_Read_scan:
  fixes c :: "'s Client" and req :: "CORSOriginResourceModel Get" and s :: 's
  defines "r \<equiv> CORSOriginResource_Read c req s"
  assumes "\<not> HasError (fst req)"
    and "\<not> Null (CORSOriginResourceModel.Id (snd req))"
    and "\<not> Null (CORSOriginResourceModel.Project (snd req))"
    and "Projects_ListCORSEntries c (Value (CORSOriginResourceModel.Project (snd req))) s
           = ((entries, None), s')"
  shows "(\<forall>e. Sscanf_d (Value (CORSOriginResourceModel.Id (snd req))) = Inl e \<longrightarrow>
            Diagnostics r = AddError ''Client Error'' e (Append [] (fst req)) \<and> State r = None)
     \<and> (\<forall>rawId. Sscanf_d (Value (CORSOriginResourceModel.Id (snd req))) = Inr rawId \<longrightarrow>
            ((\<forall>e\<in>set entries. CORSEntry.Id e \<noteq> rawId) \<longrightarrow>
               Diagnostics r = AddError ''cors entry not found'' ''cors entry not found''
                                 (Append [] (fst req))
               \<and> State r = None)
          \<and> (\<forall>i<length entries.
                CORSEntry.Id (entries ! i) = rawId
                \<and> (\<forall>j<i. CORSEntry.Id (entries ! j) \<noteq> rawId) \<longrightarrow>
                  State r = Some ((snd req)
                     \<lparr>CORSOriginResourceModel.AllowCredentials :=
                        Known (CORSEntry.AllowCredentials (entries ! i)),
                      CORSOriginResourceModel.Origin := Known (CORSEntry.Origin (entries ! i))\<rparr>)
                  \<and> Diagnostics r = Append [] (fst req)))
     \<and> (\<forall>n rest. Value (CORSOriginResourceModel.Id (snd req)) = Sprintf_d n @ rest
            \<and> (rest = [] \<or> \<not> scanDigit (hd rest)) \<longrightarrow>
            Sscanf_d (Value (CORSOriginResourceModel.Id (snd req))) = Inr n)
     \<and> Calls (World r) = [CallListCORSEntries (Value (CORSOriginResourceModel.Project (snd req)))]
     \<and> \<not> Panicked r"
proof -
  let ?diags = "Append [] (fst req)"
  have parse_fail: "r = Return (AddError ''Client Error'' e ?diags) None
                        \<lparr>Backend = s',
                         Calls = [CallListCORSEntries
                                    (Value (CORSOriginResourceModel.Project (snd req)))]\<rparr>"
    if "Sscanf_d (Value (CORSOriginResourceModel.Id (snd req))) = Inl e" for e
    using assms(2-5) that
    by (simp add: r_def CORSOriginResource_Read_def Let_def invoke_def start_def)
  have parsed: "r = (case find (\<lambda>e. CORSEntry.Id e = rawId) entries of
                       None \<Rightarrow> Return (AddError ''cors entry not found'' ''cors entry not found''
                                         ?diags) None
                                 \<lparr>Backend = s',
                                  Calls = [CallListCORSEntries
                                     (Value (CORSOriginResourceModel.Project (snd req)))]\<rparr>
                     | Some entry \<Rightarrow>
                         Return ?diags
                           (Some ((snd req)
                              \<lparr>CORSOriginResourceModel.AllowCredentials :=
                                 Known (CORSEntry.AllowCredentials entry),
                               CORSOriginResourceModel.Origin := Known (CORSEntry.Origin entry)\<rparr>))
                           \<lparr>Backend = s',
                            Calls = [CallListCORSEntries
                               (Value (CORSOriginResourceModel.Project (snd req)))]\<rparr>)"
    if "Sscanf_d (Value (CORSOriginResourceModel.Id (snd req))) = Inr rawId" for rawId
    using assms(2-5) that
    by (simp add: r_def CORSOriginResource_Read_def Let_def invoke_def start_def)
  have none: "find (\<lambda>e. CORSEntry.Id e = rawId) entries = None"
    if "\<forall>e\<in>set entries. CORSEntry.Id e \<noteq> rawId" for rawId
    using that by (simp add: find_None_iff)
  have some: "find (\<lambda>e. CORSEntry.Id e = rawId) entries = Some (entries ! i)"
    if "i < length entries" "CORSEntry.Id (entries ! i) = rawId"
       "\<forall>j<i. CORSEntry.Id (entries ! j) \<noteq> rawId" for rawId i
    using that by (auto simp: find_Some_iff)
  have scan: "Sscanf_d (Value (CORSOriginResourceModel.Id (snd req))) = Inr n"
    if "Value (CORSOriginResourceModel.Id (snd req)) = Sprintf_d n @ rest
        \<and> (rest = [] \<or> \<not> scanDigit (hd rest))" for n rest
    using that Sscanf_d_Sprintf_d_rest[of rest n] by simp
  show ?thesis
  proof (cases "Sscanf_d (Value (CORSOriginResourceModel.Id (snd req)))")
    case (Inl e)
    then show ?thesis using parse_fail[OF Inl] scan by (simp add: Return_def)
  next
    case (Inr rawId)
    have "Calls (World r) = [CallListCORSEntries (Value (CORSOriginResourceModel.Project (snd req)))]
        \<and> \<not> Panicked r"
      using parsed[OF Inr] by (simp add: Return_def split: option.splits)
    moreover have "(\<forall>e\<in>set entries. CORSEntry.Id e \<noteq> rawId) \<longrightarrow>
               Diagnostics r = AddError ''cors entry not found'' ''cors entry not found''
                                 (Append [] (fst req))
               \<and> State r = None"
      using parsed[OF Inr] none[of rawId] by (simp add: Return_def)
    moreover have "\<forall>i<length entries.
                CORSEntry.Id (entries ! i) = rawId
                \<and> (\<forall>j<i. CORSEntry.Id (entries ! j) \<noteq> rawId) \<longrightarrow>
                  State r = Some ((snd req)
                     \<lparr>CORSOriginResourceModel.AllowCredentials :=
                        Known (CORSEntry.AllowCredentials (entries ! i)),
                      CORSOriginResourceModel.Origin := Known (CORSEntry.Origin (entries ! i))\<rparr>)
                  \<and> Diagnostics r = Append [] (fst req)"
      using parsed[OF Inr] some[of _ rawId] by (auto simp: Return_def)
    ultimately show ?thesis using Inr scan by simp
  qed
qed


theorem CORSOriginResource_Read_scan_witness:
  "State (CORSOriginResource_Read accepting
      ([], \<lparr>CORSOriginResourceModel.Id = Known ''2'',
             CORSOriginResourceModel.Origin = Known ''https://stale'',
             CORSOriginResourceModel.AllowCredentials = Known True,
             CORSOriginResourceModel.Project = Known ''p1''\<rparr>) ())
     = Some \<lparr>CORSOriginResourceModel.Id = Known ''2'',
             CORSOriginResourceModel.Origin = Known ''https://b'',
             CORSOriginResourceModel.AllowCredentials = Known False,
             CORSOriginResourceModel.Project = Known ''p1''\<rparr>
   \<and> Diagnostics (CORSOriginResource_Read accepting
      ([], \<lparr>CORSOriginResourceModel.Id = Known ''99'',
             CORSOriginResourceModel.Origin = Known ''https://stale'',
             CORSOriginResourceModel.AllowCredentials = Known True,
             CORSOriginResourceModel.Project = Known ''p1''\<rparr>) ())
     = [\<lparr>Severity = SeverityError, Summary = ''cors entry not found'',
         Detail = ''cors entry not found''\<rparr>]
   \<and> State (CORSOriginResource_Read accepting
      ([], \<lparr>CORSOriginResourceModel.Id = Known ''99'',
             CORSOriginResourceModel.Origin = Known ''https://stale'',
             CORSOriginResourceModel.AllowCredentials = Known True,
             CORSOriginResourceModel.Project = Known ''p1''\<rparr>) ()) = None
   \<and> Diagnostics (CORSOriginResource_Read accepting
      ([], \<lparr>CORSOriginResourceModel.Id = Known ''two'',
             CORSOriginResourceModel.Origin = Known ''https://stale'',
             CORSOriginResourceModel.AllowCredentials = Known True,
             CORSOriginResourceModel.Project = Known ''p1''\<rparr>) ())
     = [\<lparr>Severity = SeverityError, Summary = ''Client Error'',
         Detail = ''expected integer''\<rparr>]
   \<and> Diagnostics (CORSOriginResource_Read accepting
      ([], \<lparr>CORSOriginResourceModel.Id = Known [],
             CORSOriginResourceModel.Origin = Known ''https://stale'',
             CORSOriginResourceModel.AllowCredentials = Known True,
             CORSOriginResourceModel.Project = Known ''p1''\<rparr>) ())
     = [\<lparr>Severity = SeverityError, Summary = ''Client Error'', Detail = ''EOF''\<rparr>]
   \<and> State (CORSOriginResource_Read accepting
      ([], \<lparr>CORSOriginResourceModel.Id = Known ''1_000'',
             CORSOriginResourceModel.Origin = Known ''https://stale'',
             CORSOriginResourceModel.AllowCredentials = Known True,
             CORSOriginResourceModel.Project = Known ''p1''\<rparr>) ())
     = Some \<lparr>CORSOriginResourceModel.Id = Known ''1_000'',
             CORSOriginResourceModel.Origin = Known ''https://a'',
             CORSOriginResourceModel.AllowCredentials = Known True,
             CORSOriginResourceModel.Project = Known ''p1''\<rparr>
   \<and> State (CORSOriginResource_Read accepting
      ([], \<lparr>CORSOriginResourceModel.Id = Known ([CHR 0xC2, CHR 0xA0] @ ''2''),
             CORSOriginResourceModel.Origin = Known ''https://stale'',
             CORSOriginResourceModel.AllowCredentials = Known True,
             CORSOriginResourceModel.Project = Known ''p1''\<rparr>) ())
     = Some \<lparr>CORSOriginResourceModel.Id = Known ([CHR 0xC2, CHR 0xA0] @ ''2''),
             CORSOriginResourceModel.Origin = Known ''https://b'',
             CORSOriginResourceModel.AllowCredentials = Known False,
             CORSOriginResourceModel.Project = Known ''p1''\<rparr>"
proof -
  let ?m = "\<lambda>i. \<lparr>CORSOriginResourceModel.Id = Known i,
             CORSOriginResourceModel.Origin = Known ''https://stale'',
             CORSOriginResourceModel.AllowCredentials = Known True,
             CORSOriginResourceModel.Project = Known ''p1''\<rparr>"
  let ?r = "\<lambda>i. CORSOriginResource_Read accepting ([], ?m i) ()"
  have h1: "\<not> HasError (fst (([]::Diagnostics), ?m i))" for i by simp
  have h2: "\<not> Null (CORSOriginResourceModel.Id (snd (([]::Diagnostics), ?m i)))" for i
    by (simp add: Known_def)
  have h3: "\<not> Null (CORSOriginResourceModel.Project (snd (([]::Diagnostics), ?m i)))" for i
    by (simp add: Known_def)
  have h4: "Projects_ListCORSEntries accepting
              (Value (CORSOriginResourceModel.Project (snd (([]::Diagnostics), ?m i)))) ()
            = ((exampleEntries, None), ())" for i
    by (simp add: accepting_def)
  note T = CORSOriginResource_Read_scan [OF h1 h2 h3 h4]
  have sp: "Sprintf_d 1 = ''1''" "Sprintf_d 2 = ''2''" "Sprintf_d 99 = ''99''"
    by (simp_all add: Sprintf_d_def decimal.simps digits_def)
  have sc: "Sscanf_d ''two'' = Inl ''expected integer''" "Sscanf_d [] = Inl ''EOF''"
    "Sscanf_d ([CHR 0xC2, CHR 0xA0] @ ''2'') = Inr 2"
    by (simp_all add: Sscanf_d_def SkipSpace.simps DecodeRune_def isSpace_def ParseInt_def
          ParseUint_def scanDigit_def isDigit_def maxUint64_def Let_def)
  have v: "Value (CORSOriginResourceModel.Id (snd (([]::Diagnostics), ?m i))) = i" for i
    by (simp add: Known_def)
  have scan: "Sscanf_d (Sprintf_d n @ rest) = Inr n"
    if "rest = [] \<or> \<not> scanDigit (hd rest)" for n rest
    using T[of "Sprintf_d n @ rest"] that unfolding v by blast
  have s2: "Sscanf_d ''2'' = Inr 2" using scan[of "[]" 2] by (simp add: sp)
  have s99: "Sscanf_d ''99'' = Inr 99" using scan[of "[]" 99] by (simp add: sp)
  have s1: "Sscanf_d ''1_000'' = Inr 1"
    using scan[of "''_000''" 1] by (simp add: sp scanDigit_def)
  have e: "length exampleEntries = 2"
    "CORSEntry.Id (exampleEntries ! 0) = 1" "CORSEntry.Id (exampleEntries ! 1) = 2"
    "CORSEntry.Origin (exampleEntries ! 0) = ''https://a''"
    "CORSEntry.AllowCredentials (exampleEntries ! 0) = True"
    "CORSEntry.Origin (exampleEntries ! 1) = ''https://b''"
    "CORSEntry.AllowCredentials (exampleEntries ! 1) = False"
    "\<forall>e\<in>set exampleEntries. CORSEntry.Id e \<noteq> 99"
    by (simp_all add: exampleEntries_def)
  have found: "State (?r i) = Some ((?m i)
                 \<lparr>CORSOriginResourceModel.AllowCredentials :=
                    Known (CORSEntry.AllowCredentials (exampleEntries ! k)),
                  CORSOriginResourceModel.Origin := Known (CORSEntry.Origin (exampleEntries ! k))\<rparr>)"
    if "Sscanf_d i = Inr n" "k < length exampleEntries" "CORSEntry.Id (exampleEntries ! k) = n"
       "\<forall>j<k. CORSEntry.Id (exampleEntries ! j) \<noteq> n" for i n k
  proof -
    from T[of i] that(1)
    have "\<forall>k<length exampleEntries.
          CORSEntry.Id (exampleEntries ! k) = n
          \<and> (\<forall>j<k. CORSEntry.Id (exampleEntries ! j) \<noteq> n) \<longrightarrow>
          State (?r i)
            = Some ((snd (([]::Diagnostics), ?m i))
                 \<lparr>CORSOriginResourceModel.AllowCredentials :=
                    Known (CORSEntry.AllowCredentials (exampleEntries ! k)),
                  CORSOriginResourceModel.Origin := Known (CORSEntry.Origin (exampleEntries ! k))\<rparr>)
          \<and> Diagnostics (?r i) = Append [] (fst (([]::Diagnostics), ?m i))"
      unfolding v by blast
    from this[rule_format, of k] that(2-4) show ?thesis by simp
  qed
  have a: "State (?r ''2'')
            = Some ((?m ''2'')\<lparr>CORSOriginResourceModel.AllowCredentials := Known False,
                               CORSOriginResourceModel.Origin := Known ''https://b''\<rparr>)"
    using found[OF s2, of 1] e by simp
  have a1: "State (?r ''1_000'')
            = Some ((?m ''1_000'')\<lparr>CORSOriginResourceModel.AllowCredentials := Known True,
                               CORSOriginResourceModel.Origin := Known ''https://a''\<rparr>)"
    using found[OF s1, of 0] e by simp
  have a2: "State (?r ([CHR 0xC2, CHR 0xA0] @ ''2''))
            = Some ((?m ([CHR 0xC2, CHR 0xA0] @ ''2''))
                 \<lparr>CORSOriginResourceModel.AllowCredentials := Known False,
                  CORSOriginResourceModel.Origin := Known ''https://b''\<rparr>)"
    using found[OF sc(3), of 1] e by simp
  from T[of "''99''"] s99 e(8)
  have b: "Diagnostics (?r ''99'')
             = AddError ''cors entry not found'' ''cors entry not found''
                 (Append [] (fst (([]::Diagnostics), ?m ''99'')))
           \<and> State (?r ''99'') = None"
    unfolding v by blast
  from T[of "''two''"] sc(1)
  have c: "Diagnostics (?r ''two'')
             = AddError ''Client Error'' ''expected integer''
                 (Append [] (fst (([]::Diagnostics), ?m ''two'')))"
    unfolding v by blast
  from T[of "[]"] sc(2)
  have d: "Diagnostics (?r [])
             = AddError ''Client Error'' ''EOF''
                 (Append [] (fst (([]::Diagnostics), ?m [])))"
    unfolding v by blast
  from a a1 a2 b c d show ?thesis by (simp add: AddError_def)
qed

section \<open>Project Resource: create\<close>

lemma deleteEntries_calls:
  "deleteEntries c projectId entries w = (None, w') \<Longrightarrow>
     Calls w' = Calls w @ map (\<lambda>e. CallDeleteCORSEntry projectId (CORSEntry.Id e)) entries"
proof (induction entries arbitrary: w)
  case Nil
  then show ?case by simp
next
  case (Cons entry entries)
  let ?w1 = "snd (invoke (CallDeleteCORSEntry projectId (CORSEntry.Id entry))
                   (Projects_DeleteCORSEntry c projectId (CORSEntry.Id entry)) w)"
  from Cons.prems have "deleteEntries c projectId entries ?w1 = (None, w')"
    by (simp split: prod.splits option.splits)
  then have "Calls w' = Calls ?w1 @
      map (\<lambda>e. CallDeleteCORSEntry projectId (CORSEntry.Id e)) entries"
    by (rule Cons.IH)
  then show ?case by (simp add: invoke_eq)
qed

text \<open>
  C1. Project Create, after the backend created the project, lists the project's CORS
  entries. When the listing fails, Create adds the error and returns: the calls made
  are the create and the listing, and no delete of the project follows. When the
  listing succeeds, one delete call per listed entry follows, in order; when one of
  them fails, the project's delete is called next and the error is added. So the
  compensating delete covers a failed entry delete and not a failed listing.
\<close>

theorem ProjectResource_Create_purge:
  fixes c :: "'s Client" and req :: "ProjectResourceModel Get" and s :: 's
  defines "r \<equiv> ProjectResource_Create c req s"
    and "createReq \<equiv>
           \<lparr>CreateProjectRequest.DisplayName = Value (ProjectResourceModel.Name (snd req)),
            CreateProjectRequest.OrganizationId =
              Value (ProjectResourceModel.Organization (snd req))\<rparr>"
  assumes "\<not> HasError (fst req)"
    and "Projects_Create c createReq s = ((Some project, None), s1)"
    and "Projects_ListCORSEntries c (Project.Id project) s1 = ((entries, err), s2)"
  shows "(\<forall>e. err = Some e \<longrightarrow>
            Calls (World r) = [CallCreate createReq, CallListCORSEntries (Project.Id project)]
            \<and> Diagnostics r = AddError ''Client Error'' e (Append [] (fst req))
            \<and> State r = None \<and> \<not> Panicked r)
     \<and> (\<forall>e w. err = None
            \<and> deleteEntries c (Project.Id project) entries
                 \<lparr>Backend = s2,
                  Calls = [CallCreate createReq, CallListCORSEntries (Project.Id project)]\<rparr>
                = (Some e, w) \<longrightarrow>
            Calls (World r) = Calls w @ [CallDelete (Project.Id project)]
            \<and> Diagnostics r = AddError ''Client Error'' e (Append [] (fst req))
            \<and> State r = None \<and> \<not> Panicked r)
     \<and> (\<forall>w. err = None
            \<and> deleteEntries c (Project.Id project) entries
                 \<lparr>Backend = s2,
                  Calls = [CallCreate createReq, CallListCORSEntries (Project.Id project)]\<rparr>
                = (None, w) \<longrightarrow>
            take (2 + length entries) (Calls (World r)) =
              [CallCreate createReq, CallListCORSEntries (Project.Id project)]
              @ map (\<lambda>e. CallDeleteCORSEntry (Project.Id project) (CORSEntry.Id e)) entries)"
proof -
  let ?pre = "[CallCreate createReq, CallListCORSEntries (Project.Id project)]"
  have 1: "Calls (World r) = ?pre
            \<and> Diagnostics r = AddError ''Client Error'' e (Append [] (fst req))
            \<and> State r = None \<and> \<not> Panicked r"
    if "err = Some e" for e
    using assms(3-5) that
    by (simp add: r_def createReq_def ProjectResource_Create_def Let_def invoke_def start_def
          Return_def)
  have 2: "Calls (World r) = Calls w @ [CallDelete (Project.Id project)]
            \<and> Diagnostics r = AddError ''Client Error'' e (Append [] (fst req))
            \<and> State r = None \<and> \<not> Panicked r"
    if "err = None \<and> deleteEntries c (Project.Id project) entries
                 \<lparr>Backend = s2, Calls = ?pre\<rparr> = (Some e, w)" for e w
    using assms(3-5) that
    by (simp add: r_def createReq_def ProjectResource_Create_def Let_def invoke_def start_def
          Return_def split: prod.splits)
  have 3: "take (2 + length entries) (Calls (World r)) =
              ?pre @ map (\<lambda>e. CallDeleteCORSEntry (Project.Id project) (CORSEntry.Id e)) entries"
    if a: "err = None \<and> deleteEntries c (Project.Id project) entries
                 \<lparr>Backend = s2, Calls = ?pre\<rparr> = (None, w)" for w
  proof -
    from a have cw: "Calls w = ?pre
              @ map (\<lambda>e. CallDeleteCORSEntry (Project.Id project) (CORSEntry.Id e)) entries"
      using deleteEntries_calls by fastforce
    have "\<exists>rest. Calls (World r) = Calls w @ rest"
      using assms(3-5) a
      by (auto simp: r_def createReq_def ProjectResource_Create_def Let_def invoke_eq start_def
            Return_def NilDereference_def split: prod.splits option.splits)
    then show ?thesis using cw by auto
  qed
  from 1 2 3 show ?thesis by blast
qed


theorem ProjectResource_Create_purge_witness:
  "Calls (World (ProjectResource_Create
       (accepting\<lparr>Projects_ListCORSEntries := (\<lambda>i s. (([], Some ''boom''), s))\<rparr>)
       ([], \<lparr>ProjectResourceModel.Id = NullString, ProjectResourceModel.Name = Known ''blog'',
              ProjectResourceModel.Organization = Known ''org'',
              ProjectResourceModel.StudioHost = NullString,
              ProjectResourceModel.ExternalStudioHost = NullString,
              ProjectResourceModel.Color = NullString,
              ProjectResourceModel.IsDisabledByUser = NullBool,
              ProjectResourceModel.ActivityFeedEnabled = NullBool\<rparr>) ()))
     = [CallCreate \<lparr>CreateProjectRequest.DisplayName = ''blog'',
                    CreateProjectRequest.OrganizationId = ''org''\<rparr>,
        CallListCORSEntries ''p1'']
   \<and> Calls (World (ProjectResource_Create
       (accepting\<lparr>Projects_DeleteCORSEntry := (\<lambda>i n s. (Some ''boom'', s))\<rparr>)
       ([], \<lparr>ProjectResourceModel.Id = NullString, ProjectResourceModel.Name = Known ''blog'',
              ProjectResourceModel.Organization = Known ''org'',
              ProjectResourceModel.StudioHost = NullString,
              ProjectResourceModel.ExternalStudioHost = NullString,
              ProjectResourceModel.Color = NullString,
              ProjectResourceModel.IsDisabledByUser = NullBool,
              ProjectResourceModel.ActivityFeedEnabled = NullBool\<rparr>) ()))
     = [CallCreate \<lparr>CreateProjectRequest.DisplayName = ''blog'',
                    CreateProjectRequest.OrganizationId = ''org''\<rparr>,
        CallListCORSEntries ''p1'', CallDeleteCORSEntry ''p1'' 1, CallDelete ''p1'']"
proof -
  let ?plan = "\<lparr>ProjectResourceModel.Id = NullString, ProjectResourceModel.Name = Known ''blog'',
              ProjectResourceModel.Organization = Known ''org'',
              ProjectResourceModel.StudioHost = NullString,
              ProjectResourceModel.ExternalStudioHost = NullString,
              ProjectResourceModel.Color = NullString,
              ProjectResourceModel.IsDisabledByUser = NullBool,
              ProjectResourceModel.ActivityFeedEnabled = NullBool\<rparr>"
  let ?c1 = "accepting\<lparr>Projects_ListCORSEntries := (\<lambda>i s. (([], Some ''boom''), s))\<rparr>"
  let ?c2 = "accepting\<lparr>Projects_DeleteCORSEntry := (\<lambda>i n s. (Some ''boom'', s))\<rparr>"
  let ?rq = "\<lparr>CreateProjectRequest.DisplayName = Value (ProjectResourceModel.Name (snd (([]::Diagnostics), ?plan))),
            CreateProjectRequest.OrganizationId =
              Value (ProjectResourceModel.Organization (snd (([]::Diagnostics), ?plan)))\<rparr>"
  let ?p = "exampleProject ''blog'' ''org'' []"
  have h: "\<not> HasError (fst (([]::Diagnostics), ?plan))" by simp
  have id: "Project.Id ?p = ''p1''" by (simp add: exampleProject_def)
  have rq: "?rq = \<lparr>CreateProjectRequest.DisplayName = ''blog'',
                    CreateProjectRequest.OrganizationId = ''org''\<rparr>"
    by (simp add: Known_def)
  have c1: "Projects_Create ?c1 ?rq () = ((Some ?p, None), ())"
    and l1: "Projects_ListCORSEntries ?c1 (Project.Id ?p) () = (([], Some ''boom''), ())"
    by (simp_all add: accepting_def Known_def)
  have c2: "Projects_Create ?c2 ?rq () = ((Some ?p, None), ())"
    and l2: "Projects_ListCORSEntries ?c2 (Project.Id ?p) () = ((exampleEntries, None), ())"
    by (simp_all add: accepting_def Known_def)
  have d2: "deleteEntries ?c2 (Project.Id ?p) exampleEntries
              \<lparr>Backend = (), Calls = [CallCreate ?rq, CallListCORSEntries (Project.Id ?p)]\<rparr>
            = (Some ''boom'',
               \<lparr>Backend = (), Calls = [CallCreate ?rq, CallListCORSEntries (Project.Id ?p),
                                        CallDeleteCORSEntry (Project.Id ?p) 1]\<rparr>)"
    by (simp add: exampleEntries_def accepting_def invoke_def)
  from ProjectResource_Create_purge [OF h c1 l1]
  have a: "Calls (World (ProjectResource_Create ?c1 ([], ?plan) ()))
             = [CallCreate ?rq, CallListCORSEntries (Project.Id ?p)]"
    by blast
  from ProjectResource_Create_purge [OF h c2 l2] d2
  have b: "Calls (World (ProjectResource_Create ?c2 ([], ?plan) ()))
             = [CallCreate ?rq, CallListCORSEntries (Project.Id ?p),
                CallDeleteCORSEntry (Project.Id ?p) 1] @ [CallDelete (Project.Id ?p)]"
    by (metis world.select_convs(2))
  from a b show ?thesis unfolding rq id by simp
qed

section \<open>Project Resource: update\<close>

lemma setOptionalFields_keeps [simp]:
  "UpdateProjectRequest.StudioHost (setOptionalFields data rq) = UpdateProjectRequest.StudioHost rq"
  "UpdateProjectRequest.DisplayName (setOptionalFields data rq) = UpdateProjectRequest.DisplayName rq"
  by (simp_all add: setOptionalFields_def Let_def)

lemma ProjectResource_Update_calls:
  assumes "CallUpdate i rq \<in> set (Calls (World (ProjectResource_Update c req s)))"
  shows "i = Value (ProjectResourceModel.Id (snd (Plan req)))
     \<and> UpdateProjectRequest.StudioHost rq =
         (if StateStudioHost req = [] \<and> \<not> Null (ProjectResourceModel.StudioHost (snd (Plan req)))
          then Value (ProjectResourceModel.StudioHost (snd (Plan req))) else [])
     \<and> Calls (World (ProjectResource_Update c req s)) \<noteq> []
     \<and> hd (Calls (World (ProjectResource_Update c req s))) = CallUpdate i rq"
  using assms
  by (auto simp: ProjectResource_Update_def Let_def invoke_eq start_def Return_def
        NilDereference_def emptyUpdateProjectRequest_def
        split: if_splits prod.splits option.splits)


text \<open>
  C4. Every update request that Project Update sends carries the plan's studio host in
  its studio-host field when the prior state's studio host is empty and the plan's is
  not null, and leaves the field at its zero value, the empty string, otherwise; with a
  non-empty prior studio host the field is empty whatever the plan holds. When the
  prior studio host is empty and the plan's is not null (the plan decodes, its id is
  not null), the update request is sent, as the first call, with the plan's value.
\<close>

theorem ProjectResource_Update_studio_host:
  fixes c :: "'s Client" and req :: ProjectUpdateRequest and s :: 's
  defines "data \<equiv> snd (Plan req)"
    and "r \<equiv> ProjectResource_Update c req s"
  shows "(\<forall>i rq. CallUpdate i rq \<in> set (Calls (World r)) \<longrightarrow>
            UpdateProjectRequest.StudioHost rq =
              (if StateStudioHost req = [] \<and> \<not> Null (ProjectResourceModel.StudioHost data)
               then Value (ProjectResourceModel.StudioHost data) else []))
     \<and> (StateStudioHost req \<noteq> [] \<longrightarrow>
          (\<forall>i rq. CallUpdate i rq \<in> set (Calls (World r)) \<longrightarrow>
             UpdateProjectRequest.StudioHost rq = []))
     \<and> (\<not> HasError (fst (Plan req)) \<and> \<not> Null (ProjectResourceModel.Id data)
          \<and> StateStudioHost req = [] \<and> \<not> Null (ProjectResourceModel.StudioHost data) \<longrightarrow>
          (\<exists>rq. Calls (World r) \<noteq> []
             \<and> hd (Calls (World r)) = CallUpdate (Value (ProjectResourceModel.Id data)) rq
             \<and> UpdateProjectRequest.StudioHost rq = Value (ProjectResourceModel.StudioHost data)))"
proof -
  have 1: "UpdateProjectRequest.StudioHost rq =
              (if StateStudioHost req = [] \<and> \<not> Null (ProjectResourceModel.StudioHost data)
               then Value (ProjectResourceModel.StudioHost data) else [])"
    if "CallUpdate i rq \<in> set (Calls (World r))" for i rq
    using ProjectResource_Update_calls[of i rq c req s] that by (simp add: r_def data_def)
  have 3: "\<exists>rq. Calls (World r) \<noteq> []
             \<and> hd (Calls (World r)) = CallUpdate (Value (ProjectResourceModel.Id data)) rq
             \<and> UpdateProjectRequest.StudioHost rq = Value (ProjectResourceModel.StudioHost data)"
    if "\<not> HasError (fst (Plan req)) \<and> \<not> Null (ProjectResourceModel.Id data)
          \<and> StateStudioHost req = [] \<and> \<not> Null (ProjectResourceModel.StudioHost data)"
    using that
    by (auto simp: r_def data_def ProjectResource_Update_def Let_def invoke_eq start_def
          Return_def NilDereference_def split: prod.splits option.splits)
  from 1 3 show ?thesis by simp
qed

text \<open>
  C2. When Project Update has sent its update request and the call fails, handing back
  its error and the project it reports, the error is added as a "Client Error"
  diagnostic, no state is written, the one further backend call is the compensating
  delete with the id of the reported project, and the operation returns: it does not
  panic.
\<close>

theorem ProjectResource_Update_failed_call:
  fixes c :: "'s Client" and req :: ProjectUpdateRequest and s :: 's
  defines "r \<equiv> ProjectResource_Update c req s"
  assumes "Calls (World r) = CallUpdate i rq # rest"
    and "Projects_Update c i rq s = ((Some project, Some e), s')"
  shows "Diagnostics r = AddError ''Client Error'' e (Append [] (fst (Plan req)))
     \<and> State r = None
     \<and> \<not> Panicked r
     \<and> rest = [CallDelete (Project.Id project)]
     \<and> i = Value (ProjectResourceModel.Id (snd (Plan req)))
     \<and> Backend (World r) = snd (Projects_Delete c (Project.Id project) s')"
  using assms(2,3)
  by (auto simp: r_def ProjectResource_Update_def Let_def invoke_eq start_def
        Return_def NilDereference_def split: if_splits prod.splits option.splits)

theorem ProjectResource_Update_studio_host_witness:
  "(\<exists>rq. hd (Calls (World (ProjectResource_Update accepting
         \<lparr>Plan = ([], \<lparr>ProjectResourceModel.Id = Known ''p1'',
                       ProjectResourceModel.Name = NullString,
                       ProjectResourceModel.Organization = NullString,
                       ProjectResourceModel.StudioHost = Known ''my-blog'',
                       ProjectResourceModel.ExternalStudioHost = NullString,
                       ProjectResourceModel.Color = NullString,
                       ProjectResourceModel.IsDisabledByUser = NullBool,
                       ProjectResourceModel.ActivityFeedEnabled = NullBool\<rparr>),
          StateStudioHost = []\<rparr> ()))) = CallUpdate ''p1'' rq
       \<and> UpdateProjectRequest.StudioHost rq = ''my-blog'')
   \<and> (\<exists>rq. Calls (World (ProjectResource_Update accepting
         \<lparr>Plan = ([], \<lparr>ProjectResourceModel.Id = Known ''p1'',
                       ProjectResourceModel.Name = Known ''blog'',
                       ProjectResourceModel.Organization = NullString,
                       ProjectResourceModel.StudioHost = Known ''other-host'',
                       ProjectResourceModel.ExternalStudioHost = NullString,
                       ProjectResourceModel.Color = NullString,
                       ProjectResourceModel.IsDisabledByUser = NullBool,
                       ProjectResourceModel.ActivityFeedEnabled = NullBool\<rparr>),
          StateStudioHost = ''my-blog''\<rparr> ())) = [CallUpdate ''p1'' rq]
       \<and> UpdateProjectRequest.DisplayName rq = ''blog''
       \<and> UpdateProjectRequest.StudioHost rq = [])"
proof -
  let ?a = "\<lparr>Plan = ([], \<lparr>ProjectResourceModel.Id = Known ''p1'',
                       ProjectResourceModel.Name = NullString,
                       ProjectResourceModel.Organization = NullString,
                       ProjectResourceModel.StudioHost = Known ''my-blog'',
                       ProjectResourceModel.ExternalStudioHost = NullString,
                       ProjectResourceModel.Color = NullString,
                       ProjectResourceModel.IsDisabledByUser = NullBool,
                       ProjectResourceModel.ActivityFeedEnabled = NullBool\<rparr>),
          StateStudioHost = []\<rparr>"
  let ?b = "\<lparr>Plan = ([], \<lparr>ProjectResourceModel.Id = Known ''p1'',
                       ProjectResourceModel.Name = Known ''blog'',
                       ProjectResourceModel.Organization = NullString,
                       ProjectResourceModel.StudioHost = Known ''other-host'',
                       ProjectResourceModel.ExternalStudioHost = NullString,
                       ProjectResourceModel.Color = NullString,
                       ProjectResourceModel.IsDisabledByUser = NullBool,
                       ProjectResourceModel.ActivityFeedEnabled = NullBool\<rparr>),
          StateStudioHost = ''my-blog''\<rparr>"
  have ha: "\<not> HasError (fst (Plan ?a)) \<and> \<not> Null (ProjectResourceModel.Id (snd (Plan ?a)))
          \<and> StateStudioHost ?a = [] \<and> \<not> Null (ProjectResourceModel.StudioHost (snd (Plan ?a)))"
    by (simp add: Known_def)
  from ProjectResource_Update_studio_host [of accepting ?a "()"] ha
  have "\<exists>rq. Calls (World (ProjectResource_Update accepting ?a ())) \<noteq> []
          \<and> hd (Calls (World (ProjectResource_Update accepting ?a ())))
              = CallUpdate (Value (ProjectResourceModel.Id (snd (Plan ?a)))) rq
          \<and> UpdateProjectRequest.StudioHost rq
              = Value (ProjectResourceModel.StudioHost (snd (Plan ?a)))"
    by blast
  then have a: "\<exists>rq. hd (Calls (World (ProjectResource_Update accepting ?a ())))
                  = CallUpdate ''p1'' rq
             \<and> UpdateProjectRequest.StudioHost rq = ''my-blog''"
    by (simp add: Known_def)
  let ?rq = "\<lparr>UpdateProjectRequest.DisplayName = ''blog'', UpdateProjectRequest.StudioHost = [],
      UpdateProjectRequest.ExternalStudioHost = [], UpdateProjectRequest.Color = [],
      UpdateProjectRequest.IsDisabledByUser = None,
      UpdateProjectRequest.ActivityFeedEnabled = None\<rparr>"
  have cb: "Calls (World (ProjectResource_Update accepting ?b ())) = [CallUpdate ''p1'' ?rq]"
    by (simp add: ProjectResource_Update_def accepting_def Known_def NullString_def
          NullBool_def invoke_def start_def Return_def emptyUpdateProjectRequest_def
          setOptionalFields_def)
  then have "CallUpdate ''p1'' ?rq \<in> set (Calls (World (ProjectResource_Update accepting ?b ())))"
    by simp
  with ProjectResource_Update_studio_host [of accepting ?b "()"]
  have "UpdateProjectRequest.StudioHost ?rq = []" by simp
  with cb have b: "\<exists>rq. Calls (World (ProjectResource_Update accepting ?b ())) = [CallUpdate ''p1'' rq]
       \<and> UpdateProjectRequest.DisplayName rq = ''blog''
       \<and> UpdateProjectRequest.StudioHost rq = []"
    by (intro exI[of _ ?rq]) simp
  from a b show ?thesis by blast
qed

theorem ProjectResource_Update_failed_call_witness:
  "\<not> Panicked (ProjectResource_Update refusing
         \<lparr>Plan = ([], \<lparr>ProjectResourceModel.Id = Known ''p1'',
                       ProjectResourceModel.Name = Known ''blog'',
                       ProjectResourceModel.Organization = NullString,
                       ProjectResourceModel.StudioHost = NullString,
                       ProjectResourceModel.ExternalStudioHost = NullString,
                       ProjectResourceModel.Color = NullString,
                       ProjectResourceModel.IsDisabledByUser = NullBool,
                       ProjectResourceModel.ActivityFeedEnabled = NullBool\<rparr>),
          StateStudioHost = []\<rparr> ())
   \<and> Calls (World (ProjectResource_Update refusing
         \<lparr>Plan = ([], \<lparr>ProjectResourceModel.Id = Known ''p1'',
                       ProjectResourceModel.Name = Known ''blog'',
                       ProjectResourceModel.Organization = NullString,
                       ProjectResourceModel.StudioHost = NullString,
                       ProjectResourceModel.ExternalStudioHost = NullString,
                       ProjectResourceModel.Color = NullString,
                       ProjectResourceModel.IsDisabledByUser = NullBool,
                       ProjectResourceModel.ActivityFeedEnabled = NullBool\<rparr>),
          StateStudioHost = []\<rparr> ()))
      = [CallUpdate ''p1''
           \<lparr>UpdateProjectRequest.DisplayName = ''blog'', UpdateProjectRequest.StudioHost = [],
            UpdateProjectRequest.ExternalStudioHost = [], UpdateProjectRequest.Color = [],
            UpdateProjectRequest.IsDisabledByUser = None,
            UpdateProjectRequest.ActivityFeedEnabled = None\<rparr>,
         CallDelete []]
   \<and> Diagnostics (ProjectResource_Update refusing
         \<lparr>Plan = ([], \<lparr>ProjectResourceModel.Id = Known ''p1'',
                       ProjectResourceModel.Name = Known ''blog'',
                       ProjectResourceModel.Organization = NullString,
                       ProjectResourceModel.StudioHost = NullString,
                       ProjectResourceModel.ExternalStudioHost = NullString,
                       ProjectResourceModel.Color = NullString,
                       ProjectResourceModel.IsDisabledByUser = NullBool,
                       ProjectResourceModel.ActivityFeedEnabled = NullBool\<rparr>),
          StateStudioHost = []\<rparr> ())
      = [\<lparr>Severity = SeverityError, Summary = ''Client Error'', Detail = ''boom''\<rparr>]"
proof -
  let ?a = "\<lparr>Plan = ([], \<lparr>ProjectResourceModel.Id = Known ''p1'',
                       ProjectResourceModel.Name = Known ''blog'',
                       ProjectResourceModel.Organization = NullString,
                       ProjectResourceModel.StudioHost = NullString,
                       ProjectResourceModel.ExternalStudioHost = NullString,
                       ProjectResourceModel.Color = NullString,
                       ProjectResourceModel.IsDisabledByUser = NullBool,
                       ProjectResourceModel.ActivityFeedEnabled = NullBool\<rparr>),
          StateStudioHost = []\<rparr>"
  let ?rq = "\<lparr>UpdateProjectRequest.DisplayName = ''blog'', UpdateProjectRequest.StudioHost = [],
      UpdateProjectRequest.ExternalStudioHost = [], UpdateProjectRequest.Color = [],
      UpdateProjectRequest.IsDisabledByUser = None,
      UpdateProjectRequest.ActivityFeedEnabled = None\<rparr>"
  have calls: "Calls (World (ProjectResource_Update refusing ?a ()))
                 = CallUpdate ''p1'' ?rq # [CallDelete (Project.Id zeroProject)]"
    by (simp add: ProjectResource_Update_def refusing_def Known_def NullString_def
          NullBool_def invoke_def start_def Return_def emptyUpdateProjectRequest_def
          setOptionalFields_def)
  have upd: "Projects_Update refusing ''p1'' ?rq () = ((Some zeroProject, Some ''boom''), ())"
    by (simp add: refusing_def)
  have z: "Project.Id zeroProject = []" by (simp add: zeroProject_def)
  from ProjectResource_Update_failed_call [OF calls upd] calls
  show ?thesis by (simp add: AddError_def z)
qed

end
